theory Spec2Isabelle
  imports Main "HOL-Library.Sublist"
begin

section \<open>Values, strings and the clock\<close>

text \<open>
  Request bodies reach the controllers as parsed JSON (\<^verbatim>\<open>req.body\<close> has type
  \<^verbatim>\<open>any\<close>). \<open>JUndefined\<close> is what reading an absent key gives. Numbers are
  modelled as integers: the code only tests them for zero and compares them.
\<close>

datatype json =
    JUndefined
  | JNull
  | JBool bool
  | JNum int
  | JStr string
  | JArr "json list"
  | JObj "(string \<times> json) list"

text \<open>JavaScript truthiness, as used by \<^verbatim>\<open>!x\<close> and \<^verbatim>\<open>if (x)\<close>.\<close>

fun truthy :: "json \<Rightarrow> bool" where
  "truthy JUndefined = False"
| "truthy JNull = False"
| "truthy (JBool b) = b"
| "truthy (JNum n) = (n \<noteq> 0)"
| "truthy (JStr s) = (s \<noteq> [])"
| "truthy (JArr xs) = True"
| "truthy (JObj kvs) = True"

text \<open>
  \<^verbatim>\<open>String.prototype.trim\<close> on the ASCII white space and line terminators
  (tab, line feed, vertical tab, form feed, carriage return, space). Strings are byte
  lists here, so the non-ASCII white space of JavaScript is not covered.
\<close>

definition is_space :: "char \<Rightarrow> bool" where
  "is_space c = (c \<in> set [CHR 0x09, CHR 0x0A, CHR 0x0B, CHR 0x0C, CHR 0x0D, CHR 0x20])"

definition trim :: "string \<Rightarrow> string" where
  "trim s = rev (dropWhile is_space (rev (dropWhile is_space s)))"

text \<open>ASCII lower-casing of one character and of a string (\<^verbatim>\<open>toLowerCase\<close>).\<close>

definition lower_char :: "char \<Rightarrow> char" where
  "lower_char c =
     (let n = (of_char c :: nat) in if 65 \<le> n \<and> n \<le> 90 then char_of (n + 32) else c)"

definition toLowerCase :: "string \<Rightarrow> string" where
  "toLowerCase s = map lower_char s"

text \<open>
  The clock read by \<^verbatim>\<open>new Date()\<close>: the ISO-8601 rendering, the calendar year and
  the epoch milliseconds of one instant.
\<close>

record clock =
  toISOString :: string
  getFullYear :: int
  getTime :: int

section \<open>Response envelope (utils/apiResponse)\<close>

record 'a api_response =
  success :: bool
  statusCode :: int
  message :: string
  data :: "'a option"
  timestamp :: string
  path :: "string option"

text \<open>
  \<^verbatim>\<open>constructor(statusCode, message = 'Success', data?, path?)\<close>. An omitted argument
  is \<open>None\<close>; the default of \<open>message\<close> applies when it is omitted.
\<close>

definition ApiResponse ::
  "clock \<Rightarrow> int \<Rightarrow> string option \<Rightarrow> 'a option \<Rightarrow> string option \<Rightarrow> 'a api_response" where
  "ApiResponse clk sc msg d p =
     \<lparr> success = (sc < 400),
       statusCode = sc,
       message = (case msg of None \<Rightarrow> ''Success'' | Some m \<Rightarrow> m),
       data = d,
       timestamp = toISOString clk,
       path = p \<rparr>"

record api_error =
  e_success :: bool
  e_statusCode :: int
  e_message :: string
  e_errors :: "string list option"
  e_timestamp :: string
  e_path :: "string option"
  e_isOperational :: bool

text \<open>
  \<^verbatim>\<open>new ApiError(statusCode, message = 'Something went wrong', errors?)\<close> with the
  remaining arguments at their defaults, and the static helper \<open>badRequest\<close>.
\<close>

definition ApiError :: "clock \<Rightarrow> int \<Rightarrow> string option \<Rightarrow> string list option \<Rightarrow> api_error" where
  "ApiError clk sc msg errs =
     \<lparr> e_success = False,
       e_statusCode = sc,
       e_message = (case msg of None \<Rightarrow> ''Something went wrong'' | Some m \<Rightarrow> m),
       e_errors = errs,
       e_timestamp = toISOString clk,
       e_path = None,
       e_isOperational = True \<rparr>"

definition badRequest :: "clock \<Rightarrow> string \<Rightarrow> string list option \<Rightarrow> api_error" where
  "badRequest clk msg errs = ApiError clk 400 (Some msg) errs"








text \<open>
  An error object as the error handler reads it (the interface \<open>ExtendedError\<close>): the
  properties it tests and renders. \<open>x_errors\<close> is the list an \<open>ApiError\<close> carries,
  \<open>x_validation\<close> the messages of the entries of a validation error's \<open>errors\<close>. A
  property that is not there is \<open>None\<close>, \<open>JUndefined\<close>, the empty list or, for
  \<open>isOperational\<close>, which is only tested for truth, \<open>False\<close>.
\<close>

record extended_error =
  x_name :: string
  x_message :: string
  x_statusCode :: "int option"
  x_isOperational :: bool
  x_code :: json
  x_path :: "string option"
  x_value :: "string option"
  x_keyValue :: "(string \<times> string) list"
  x_errors :: "string list option"
  x_validation :: "string list"
  x_type :: "string option"


section \<open>Company model (models/company.model)\<close>

definition industryEnum :: "string list" where
  "industryEnum =
     [''Technology'', ''Healthcare'', ''Manufacturing'', ''Financial Services'', ''Retail'',
      ''Education'', ''Construction'', ''Transportation'', ''Entertainment'', ''Other'']"

text \<open>A stored document: the schema's fields, the store's \<open>_id\<close> and the two timestamps.\<close>

record company =
  cid :: nat
  name :: string
  description :: "string option"
  industry :: string
  foundedYear :: "int option"
  location :: "string list"
  website :: "string option"
  email :: string
  phone :: "string option"
  employees :: "int option"
  isActive :: bool
  logo :: "string option"
  headquarters :: "string option"
  revenue :: "int option"
  createdAt :: int
  updatedAt :: int

text \<open>
  The instance methods. \<^verbatim>\<open>!this.foundedYear\<close> holds for an absent year and for the
  year 0 alike.
\<close>

definition getCompanyAge :: "clock \<Rightarrow> company \<Rightarrow> int" where
  "getCompanyAge clk c =
     (case foundedYear c of
        None \<Rightarrow> 0
      | Some y \<Rightarrow> if y = 0 then 0 else getFullYear clk - y)"

definition getEmployeeRange :: "company \<Rightarrow> string" where
  "getEmployeeRange c =
     (case employees c of
        None \<Rightarrow> ''Not specified''
      | Some n \<Rightarrow>
          if n = 0 then ''Not specified''
          else if n < 10 then ''1-10''
          else if n < 50 then ''11-50''
          else if n < 200 then ''51-200''
          else if n < 1000 then ''201-1000''
          else ''1000+'')"

text \<open>The pre-save hook: a website without a protocol gets \<^verbatim>\<open>https://\<close> in front.\<close>

definition pre_save_website :: "string option \<Rightarrow> string option" where
  "pre_save_website w =
     (case w of
        None \<Rightarrow> None
      | Some u \<Rightarrow> if u \<noteq> [] \<and> \<not> prefix ''http'' u then Some (''https://'' @ u) else Some u)"

section \<open>The document store\<close>

text \<open>
  The collection is the list of its documents in insertion order, with the next free
  identifier. The store is MongoDB behind Mongoose, which is not part of the sources; what
  is modelled of it is what the schema declares (setters \<open>trim\<close> and \<open>lowercase\<close>, the
  default of \<open>isActive\<close>, the timestamps, the unique indexes on \<open>name\<close> and \<open>email\<close>)
  and the query operators the controllers use.
\<close>

record store =
  docs :: "company list"
  next_id :: nat

text \<open>
  The destructured body of a create request, which is also what \<^verbatim>\<open>Company.create\<close>
  receives. The four fields the controller inspects are JSON values; the eight it only
  forwards to the store are typed as the schema declares them.
\<close>

record create_body =
  b_name :: json
  b_description :: "string option"
  b_industry :: json
  b_foundedYear :: "int option"
  b_location :: json
  b_website :: "string option"
  b_email :: json
  b_phone :: "string option"
  b_employees :: "int option"
  b_logo :: "string option"
  b_headquarters :: "string option"
  b_revenue :: "int option"

text \<open>
  Errors that reach \<^verbatim>\<open>next(error)\<close> through \<^verbatim>\<open>asyncHandler\<close>: an \<open>ApiError\<close> of
  the controller, the TypeError of the runtime, and the store's validation error and
  duplicate-key error, the latter with the key and the value of the index it violates.
\<close>

datatype thrown =
    Thrown_ApiError api_error
  | TypeError
  | ValidationError
  | DuplicateKeyError string string

text \<open>
  What the libraries do with values that the sources do not fix is a parameter:
  \<^item> \<open>validators\<close>: whether the schema's validators (\<open>maxlength\<close>, \<open>min\<close>, \<open>max\<close>,
    \<open>match\<close>, \<open>validate\<close>) accept the fields handed to \<^verbatim>\<open>Company.create\<close>;
  \<^item> \<open>castObjectId\<close>: the cast of a path parameter to a document identifier
    (\<open>None\<close>: CastError);
  \<^item> \<open>castString\<close>, \<open>castStrings\<close>, \<open>castBoolean\<close>: the casts of update values to the
    type of the path (\<open>None\<close>: CastError; for a string path the inner option is the
    stored value, \<open>None\<close> for null);
  \<^item> \<open>Number\<close> and \<open>Date\<close>: the JavaScript conversions of a query-string value
    (\<open>None\<close>: \<open>NaN\<close>, or an invalid date);
  \<^item> \<open>RegExp\<close>: the case-insensitive test compiled from a pattern that uses regular
    expression syntax beyond literal characters and the dot (\<open>None\<close>: the pattern does
    not compile);
  \<^item> \<open>runtime_error\<close>: the error object that the runtime or the store creates for a
    thrown error that is not an \<open>ApiError\<close>, which gives the properties that the sources
    do not fix (the message text among them);
  \<^item> \<open>stack_of\<close>: what reading \<open>stack\<close> from an error object gives (\<open>None\<close>:
    \<open>undefined\<close>, as for a copy that did not take the property over).
\<close>

record lib =
  validators :: "create_body \<Rightarrow> bool"
  castObjectId :: "string \<Rightarrow> nat option"
  castString :: "json \<Rightarrow> string option option"
  castStrings :: "json \<Rightarrow> string list option"
  castBoolean :: "json \<Rightarrow> bool option"
  Number :: "string \<Rightarrow> int option"
  Date :: "string \<Rightarrow> int option"
  RegExp :: "string \<Rightarrow> (string \<Rightarrow> bool) option"
  runtime_error :: "thrown \<Rightarrow> extended_error"
  stack_of :: "extended_error \<Rightarrow> string option"

section \<open>Responses\<close>

text \<open>
  \<^verbatim>\<open>toObject()\<close> with \<^verbatim>\<open>virtuals: true\<close>: the document and its two virtual
  properties. The virtual \<open>companyAge\<close> is \<open>null\<close> (here \<open>None\<close>) without a founding year.
\<close>

record company_object =
  document :: company
  companyAge :: "int option"
  employeeRange :: string

definition toObject :: "clock \<Rightarrow> company \<Rightarrow> company_object" where
  "toObject clk c =
     \<lparr> document = c,
       companyAge =
         (case foundedYear c of
            None \<Rightarrow> None
          | Some y \<Rightarrow> if y = 0 then None else Some (getFullYear clk - y)),
       employeeRange = getEmployeeRange c \<rparr>"

text \<open>The fields the \<^verbatim>\<open>$project\<close> stage of the list operation keeps.\<close>

record company_summary =
  s_id :: nat
  s_name :: string
  s_description :: "string option"
  s_industry :: string
  s_foundedYear :: "int option"
  s_location :: "string list"
  s_website :: "string option"
  s_isActive :: bool
  s_logo :: "string option"


text \<open>
  The object that \<open>sendErrorDev\<close> and \<open>sendErrorProd\<close> write. The second writes
  neither \<open>error\<close> nor \<open>stack\<close> nor \<open>method\<close>; a property whose value is
  \<open>undefined\<close> is not serialised.
\<close>

record error_body =
  r_success :: bool
  r_statusCode :: int
  r_message :: string
  r_error :: "extended_error option"
  r_stack :: "string option"
  r_path :: string
  r_method :: "string option"
  r_timestamp :: string

text \<open>
  What a handler hands to \<^verbatim>\<open>res.status(n).json(v)\<close>: the status \<open>n\<close> and the value
  \<open>v\<close>, one constructor for each form of value that is written. \<open>Json_error\<close>
  is \<^verbatim>\<open>{ error: error.message }\<close>, whose text is the library's.
\<close>

datatype response_body =
    Json_ApiResponse "company api_response"
  | Json_error_body error_body
  | Json_message string
  | Json_error
  | Json_company company
  | Json_company_details company_object
  | Json_companies "company list"
  | Json_summaries "company_summary list"
  | Json_strings "string list"

type_synonym response = "int \<times> response_body"

section \<open>Error handling (middleware/errorHandler)\<close>






















section \<open>Create (controllers/company.controller, createCompany)\<close>

text \<open>
  The value of \<^verbatim>\<open>!v?.trim()\<close>: the optional chain stops at \<open>undefined\<close> and \<open>null\<close>;
  any other value that is not a string has no \<open>trim\<close> method, and the call throws.
\<close>

fun not_trimmed :: "json \<Rightarrow> thrown + bool" where
  "not_trimmed JUndefined = Inr True"
| "not_trimmed JNull = Inr True"
| "not_trimmed (JStr s) = Inr (trim s = [])"
| "not_trimmed v = Inl TypeError"

fun bad_location :: "json \<Rightarrow> bool" where
  "bad_location (JStr s) = (length (trim s) = 0)"
| "bad_location v = True"

fun location_errors :: "json \<Rightarrow> string list" where
  "location_errors (JArr ls) =
     (if length ls = 0 then [''At least one location is required'']
      else if (\<exists>loc \<in> set ls. bad_location loc) then [''Each location must be a non-empty string'']
      else [])"
| "location_errors v = [''At least one location is required'']"

text \<open>Lines 95 to 105: the list \<open>errors\<close> after the four checks, or the TypeError.\<close>

definition collect_errors :: "create_body \<Rightarrow> thrown + string list" where
  "collect_errors b =
     (case not_trimmed (b_name b) of
        Inl e \<Rightarrow> Inl e
      | Inr no_name \<Rightarrow>
          (case not_trimmed (b_email b) of
             Inl e \<Rightarrow> Inl e
           | Inr no_email \<Rightarrow>
               Inr ((if no_name then [''Name is required''] else [])
                    @ (if no_email then [''Email is required''] else [])
                    @ (if \<not> truthy (b_industry b) then [''Industry is required''] else [])
                    @ location_errors (b_location b))))"

text \<open>
  A JSON value that already is a string, as the store takes it for a string path;
  \<open>None\<close> stands for every other value, which \<open>createCompany\<close> never passes on.
\<close>

fun string_of :: "json \<Rightarrow> string option" where
  "string_of (JStr s) = Some s"
| "string_of v = None"

text \<open>
  \<^verbatim>\<open>Company.findOne({ $or: [{ name }, { email }] })\<close>: the first document one of
  whose two fields equals the value of the filter. The store casts the values of a filter
  as it casts those of a document, through the setters of the path: the name is trimmed,
  the email trimmed and lower-cased.
\<close>

definition findOne_name_or_email :: "store \<Rightarrow> json \<Rightarrow> json \<Rightarrow> company option" where
  "findOne_name_or_email s n e =
     find (\<lambda>c. Some (name c) = map_option trim (string_of n)
               \<or> Some (email c) = map_option (\<lambda>x. toLowerCase (trim x)) (string_of e))
       (docs s)"

fun enum_includes :: "string list \<Rightarrow> json \<Rightarrow> bool" where
  "enum_includes vs (JStr i) = (i \<in> set vs)"
| "enum_includes vs v = False"

fun join :: "string \<Rightarrow> string list \<Rightarrow> string" where
  "join sep [] = []"
| "join sep [x] = x"
| "join sep (x # y # ys) = x @ sep @ join sep (y # ys)"

definition invalid_industry_message :: string where
  "invalid_industry_message = ''Invalid industry. Allowed values are: '' @ join '', '' industryEnum"

text \<open>
  The document \<^verbatim>\<open>Company.create\<close> builds from the twelve fields: strings of a path
  with \<open>trim\<close> are trimmed, the email is lower-cased, \<open>isActive\<close> takes its default,
  both timestamps are the clock's. The four inspected fields are taken where they
  already have the path's type.
\<close>

fun strings_of :: "json \<Rightarrow> string list option" where
  "strings_of (JArr ls) =
     (if (\<exists>l \<in> set ls. string_of l = None) then None else Some (map (\<lambda>l. the (string_of l)) ls))"
| "strings_of v = None"

definition new_document :: "clock \<Rightarrow> nat \<Rightarrow> create_body \<Rightarrow> company option" where
  "new_document clk i b =
     (case (string_of (b_name b), string_of (b_email b), string_of (b_industry b),
            strings_of (b_location b)) of
        (Some n, Some e, Some ind, Some ls) \<Rightarrow>
          Some \<lparr> cid = i,
                 name = trim n,
                 description = map_option trim (b_description b),
                 industry = ind,
                 foundedYear = b_foundedYear b,
                 location = ls,
                 website = pre_save_website (map_option trim (b_website b)),
                 email = toLowerCase (trim e),
                 phone = map_option trim (b_phone b),
                 employees = b_employees b,
                 isActive = True,
                 logo = map_option trim (b_logo b),
                 headquarters = map_option trim (b_headquarters b),
                 revenue = b_revenue b,
                 createdAt = getTime clk,
                 updatedAt = getTime clk \<rparr>
      | _ \<Rightarrow> None)"

text \<open>
  \<^verbatim>\<open>Company.create\<close>: validation first, then the insert, which the unique indexes
  on \<open>name\<close> and \<open>email\<close> refuse with a duplicate-key error (E11000).
\<close>

definition Company_create ::
  "lib \<Rightarrow> clock \<Rightarrow> store \<Rightarrow> create_body \<Rightarrow> thrown + company \<times> store" where
  "Company_create lb clk s b =
     (case new_document clk (next_id s) b of
        None \<Rightarrow> Inl ValidationError
      | Some doc \<Rightarrow>
          if \<not> validators lb b then Inl ValidationError
          else if (\<exists>d \<in> set (docs s). name d = name doc)
          then Inl (DuplicateKeyError ''name'' (name doc))
          else if (\<exists>d \<in> set (docs s). email d = email doc)
          then Inl (DuplicateKeyError ''email'' (email doc))
          else Inr (doc, s\<lparr> docs := docs s @ [doc], next_id := Suc (next_id s) \<rparr>))"

text \<open>
  The handler: the thrown error or the response, with the store afterwards.
  \<^verbatim>\<open>Company.create\<close> gives the document or throws, so the test \<^verbatim>\<open>!newCompany\<close>
  after it never holds and has no branch here.
\<close>

definition createCompany ::
  "lib \<Rightarrow> clock \<Rightarrow> store \<Rightarrow> create_body \<Rightarrow> (thrown + response) \<times> store" where
  "createCompany lb clk s b =
     (case collect_errors b of
        Inl e \<Rightarrow> (Inl e, s)
      | Inr errors \<Rightarrow>
          if length errors > 0
          then (Inl (Thrown_ApiError (badRequest clk ''Missing fields'' (Some errors))), s)
          else
            (case findOne_name_or_email s (b_name b) (b_email b) of
               Some existing \<Rightarrow>
                 (Inl (Thrown_ApiError (ApiError clk 400 (Some ''Already existing company'') None)), s)
             | None \<Rightarrow>
                 if \<not> enum_includes industryEnum (b_industry b)
                 then (Inl (Thrown_ApiError (badRequest clk invalid_industry_message None)), s)
                 else
                   (case Company_create lb clk s b of
                      Inl e \<Rightarrow> (Inl e, s)
                    | Inr (newCompany, s') \<Rightarrow>
                        (Inr (201, Json_ApiResponse
                                (ApiResponse clk 201 (Some ''Company created successfully'')
                                   (Some newCompany) None)), s'))))"


section \<open>List, get, update and delete\<close>




definition findById :: "lib \<Rightarrow> store \<Rightarrow> string \<Rightarrow> company option option" where
  "findById lb s i =
     (case castObjectId lb i of
        None \<Rightarrow> None
      | Some k \<Rightarrow> Some (find (\<lambda>c. cid c = k) (docs s)))"

definition getCompanyById :: "lib \<Rightarrow> clock \<Rightarrow> store \<Rightarrow> string \<Rightarrow> response" where
  "getCompanyById lb clk s i =
     (case findById lb s i of
        None \<Rightarrow> (500, Json_error)
      | Some None \<Rightarrow> (404, Json_message ''Company not found'')
      | Some (Some company) \<Rightarrow>
          (200, Json_company_details
                  ((toObject clk company)\<lparr> companyAge := Some (getCompanyAge clk company) \<rparr>)))"

text \<open>
  An update body is a JSON object, the association list of its keys; reading a key that
  is not there gives \<open>undefined\<close>.
\<close>

definition get_key :: "(string \<times> json) list \<Rightarrow> string \<Rightarrow> json" where
  "get_key obj k = (case map_of obj k of None \<Rightarrow> JUndefined | Some v \<Rightarrow> v)"

definition allowedFields :: "string list" where
  "allowedFields = [''logo'', ''description'', ''location'', ''phone'', ''isActive'']"

text \<open>The loop over \<open>allowedFields\<close> that fills \<open>updateData\<close>.\<close>

fun collect_updates :: "(string \<times> json) list \<Rightarrow> string list \<Rightarrow> (string \<times> json) list" where
  "collect_updates updates [] = []"
| "collect_updates updates (field # rest) =
     (if get_key updates field \<noteq> JUndefined
      then (field, get_key updates field) # collect_updates updates rest
      else collect_updates updates rest)"

text \<open>
  \<^verbatim>\<open>findByIdAndUpdate(id, updateData, { new: true })\<close>: each value is cast to the type
  of its path and set on the document; \<open>updatedAt\<close> moves to the clock.
\<close>

definition cast_path :: "lib \<Rightarrow> string \<times> json \<Rightarrow> (company \<Rightarrow> company) option" where
  "cast_path lb kv =
     (let (k, v) = kv in
      if k = ''logo'' then map_option (\<lambda>x c. c\<lparr> logo := x \<rparr>) (castString lb v)
      else if k = ''description'' then map_option (\<lambda>x c. c\<lparr> description := x \<rparr>) (castString lb v)
      else if k = ''location'' then map_option (\<lambda>x c. c\<lparr> location := x \<rparr>) (castStrings lb v)
      else if k = ''phone'' then map_option (\<lambda>x c. c\<lparr> phone := x \<rparr>) (castString lb v)
      else if k = ''isActive'' then map_option (\<lambda>x c. c\<lparr> isActive := x \<rparr>) (castBoolean lb v)
      else Some (\<lambda>c. c))"

fun cast_update :: "lib \<Rightarrow> (string \<times> json) list \<Rightarrow> (company \<Rightarrow> company) option" where
  "cast_update lb [] = Some (\<lambda>c. c)"
| "cast_update lb (kv # kvs) =
     (case cast_path lb kv of
        None \<Rightarrow> None
      | Some f \<Rightarrow> (case cast_update lb kvs of None \<Rightarrow> None | Some g \<Rightarrow> Some (\<lambda>c. g (f c))))"

fun replace_doc :: "company \<Rightarrow> company list \<Rightarrow> company list" where
  "replace_doc d [] = []"
| "replace_doc d (c # cs) = (if cid c = cid d then d # cs else c # replace_doc d cs)"

text \<open>The result is \<open>None\<close> when a cast fails (the call throws), else the updated
  document, if there is one with that identifier, and the store afterwards.\<close>

definition findByIdAndUpdate ::
  "lib \<Rightarrow> clock \<Rightarrow> store \<Rightarrow> string \<Rightarrow> (string \<times> json) list \<Rightarrow> (company option \<times> store) option" where
  "findByIdAndUpdate lb clk s i updateData =
     (case castObjectId lb i of
        None \<Rightarrow> None
      | Some k \<Rightarrow>
          (case cast_update lb updateData of
             None \<Rightarrow> None
           | Some f \<Rightarrow>
               (case find (\<lambda>c. cid c = k) (docs s) of
                  None \<Rightarrow> Some (None, s)
                | Some c \<Rightarrow>
                    (let d = (f c)\<lparr> updatedAt := getTime clk \<rparr>
                     in Some (Some d, s\<lparr> docs := replace_doc d (docs s) \<rparr>)))))"

definition updateCompany ::
  "lib \<Rightarrow> clock \<Rightarrow> store \<Rightarrow> string \<Rightarrow> (string \<times> json) list \<Rightarrow> response \<times> store" where
  "updateCompany lb clk s i updates =
     (let updateData = collect_updates updates allowedFields in
      if length updateData = 0 then ((400, Json_message ''No fields provided to update''), s)
      else
        (case findByIdAndUpdate lb clk s i updateData of
           None \<Rightarrow> ((500, Json_error), s)
         | Some (None, s') \<Rightarrow> ((404, Json_message ''Company not found''), s')
         | Some (Some company, s') \<Rightarrow> ((200, Json_company company), s')))"

definition findByIdAndDelete :: "lib \<Rightarrow> store \<Rightarrow> string \<Rightarrow> (company option \<times> store) option" where
  "findByIdAndDelete lb s i =
     (case castObjectId lb i of
        None \<Rightarrow> None
      | Some k \<Rightarrow>
          (case find (\<lambda>c. cid c = k) (docs s) of
             None \<Rightarrow> Some (None, s)
           | Some c \<Rightarrow> Some (Some c, s\<lparr> docs := filter (\<lambda>d. cid d \<noteq> k) (docs s) \<rparr>)))"

definition deleteCompany :: "lib \<Rightarrow> store \<Rightarrow> string \<Rightarrow> response \<times> store" where
  "deleteCompany lb s i =
     (case findByIdAndDelete lb s i of
        None \<Rightarrow> ((500, Json_error), s)
      | Some (None, s') \<Rightarrow> ((404, Json_message ''Company not found''), s')
      | Some (Some company, s') \<Rightarrow> ((200, Json_message ''Company deleted successfully''), s'))"

section \<open>Search suggestions and search\<close>

text \<open>
  \<^verbatim>\<open>new RegExp(q, 'i')\<close> and the store's \<^verbatim>\<open>{ $regex: q, $options: 'i' }\<close>: the
  query string is a pattern, searched for anywhere in the subject. A pattern of literal
  characters and dots is matched here; the dot stands for any character but a line
  terminator, and letters match in either case. Any other pattern is left to \<open>RegExp\<close>.
  The store is taken to match as JavaScript does.
\<close>

definition is_meta :: "char \<Rightarrow> bool" where
  "is_meta c = (c \<in> set [CHR 0x5C, CHR ''^'', CHR ''$'', CHR ''.'', CHR ''|'', CHR ''?'', CHR ''*'',
                          CHR ''+'', CHR ''('', CHR '')'', CHR ''['', CHR '']'', CHR ''{'', CHR ''}''])"

definition atom_matches :: "char \<Rightarrow> char \<Rightarrow> bool" where
  "atom_matches p c =
     (if p = CHR ''.'' then c \<noteq> CHR 0x0A \<and> c \<noteq> CHR 0x0D else lower_char p = lower_char c)"

fun match_here :: "string \<Rightarrow> string \<Rightarrow> bool" where
  "match_here [] cs = True"
| "match_here (p # ps) [] = False"
| "match_here (p # ps) (c # cs) = (atom_matches p c \<and> match_here ps cs)"

fun match_anywhere :: "string \<Rightarrow> string \<Rightarrow> bool" where
  "match_anywhere ps [] = match_here ps []"
| "match_anywhere ps (c # cs) = (match_here ps (c # cs) \<or> match_anywhere ps cs)"

definition regex_i :: "lib \<Rightarrow> string \<Rightarrow> (string \<Rightarrow> bool) option" where
  "regex_i lb q =
     (if (\<exists>c \<in> set q. is_meta c \<and> c \<noteq> CHR ''.'') then RegExp lb q
      else Some (match_anywhere q))"

text \<open>\<^verbatim>\<open>Set.prototype.add\<close> on a set kept in insertion order.\<close>

definition add :: "string list \<Rightarrow> string \<Rightarrow> string list" where
  "add result v = (if v \<in> set result then result else result @ [v])"

definition add_if :: "(string \<Rightarrow> bool) \<Rightarrow> string list \<Rightarrow> string \<Rightarrow> string list" where
  "add_if m result v = (if m v then add result v else result)"

text \<open>The \<^verbatim>\<open>$or\<close> query of the suggestion operation; a pattern on an array path
  matches when one element does.\<close>

definition find_suggestions :: "(string \<Rightarrow> bool) \<Rightarrow> store \<Rightarrow> company list" where
  "find_suggestions m s =
     filter (\<lambda>c. m (name c) \<or> m (industry c) \<or> (\<exists>loc \<in> set (location c). m loc)) (docs s)"

text \<open>The query parameter \<open>q\<close> is \<open>None\<close> when it is not a string.\<close>

definition searchSuggestion :: "lib \<Rightarrow> store \<Rightarrow> string option \<Rightarrow> response" where
  "searchSuggestion lb s q =
     (case q of
        None \<Rightarrow> (400, Json_message ''Invalid query parameter'')
      | Some pattern \<Rightarrow>
          (case regex_i lb pattern of
             None \<Rightarrow> (500, Json_error)
           | Some m \<Rightarrow>
               (let suggestions = find_suggestions m s;
                    result =
                      foldl (\<lambda>result c.
                               foldl (add_if m)
                                 (add_if m (add_if m result (name c)) (industry c))
                                 (location c))
                        [] suggestions
                in (200, Json_strings result))))"

text \<open>The query string of the search operation: each parameter absent or a string.\<close>

record search_query =
  q_name :: "string option"
  q_location :: "string option"
  q_industry :: "string option"
  q_isActive :: "string option"
  q_employees :: "string option"
  q_createdAt :: "string option"
  q_foundedYear :: "string option"

text \<open>
  The object \<open>filters\<close>. A key is set under \<^verbatim>\<open>if (x)\<close>, which an absent parameter
  and the empty string fail, except \<open>isActive\<close>, set whenever the parameter is there.
  The inner option of a numeric or date key is \<open>None\<close> for \<open>NaN\<close> or an invalid date.
\<close>

record filters =
  f_name :: "string option"
  f_location :: "string option"
  f_industry :: "string option"
  f_isActive :: "bool option"
  f_employees :: "int option option"
  f_createdAt :: "int option option"
  f_foundedYear :: "int option option"

definition if_given :: "string option \<Rightarrow> (string \<Rightarrow> 'a) \<Rightarrow> 'a option" where
  "if_given v f = (case v of None \<Rightarrow> None | Some x \<Rightarrow> if x = [] then None else Some (f x))"

definition build_filters :: "lib \<Rightarrow> search_query \<Rightarrow> filters" where
  "build_filters lb q =
     \<lparr> f_name = if_given (q_name q) (\<lambda>x. x),
       f_location = if_given (q_location q) (\<lambda>x. x),
       f_industry = if_given (q_industry q) (\<lambda>x. x),
       f_isActive = (case q_isActive q of None \<Rightarrow> None | Some x \<Rightarrow> Some (x = ''true'')),
       f_employees = if_given (q_employees q) (Number lb),
       f_createdAt = if_given (q_createdAt q) (Date lb),
       f_foundedYear = if_given (q_foundedYear q) (Number lb) \<rparr>"

text \<open>
  \<^verbatim>\<open>Company.find(filters)\<close>: one condition for each key of the filter, all of which a
  document must meet. A key that is not set gives the condition that always holds. The
  query fails (\<open>None\<close>) on a pattern that does not compile, on \<open>NaN\<close> and on an invalid
  date. A comparison never holds for a document without the field.
\<close>

definition regex_condition ::
  "lib \<Rightarrow> string option \<Rightarrow> (company \<Rightarrow> string list) \<Rightarrow> (company \<Rightarrow> bool) option" where
  "regex_condition lb f values =
     (case f of
        None \<Rightarrow> Some (\<lambda>c. True)
      | Some p \<Rightarrow> map_option (\<lambda>m c. \<exists>v \<in> set (values c). m v) (regex_i lb p))"

definition eq_condition :: "'a option \<Rightarrow> (company \<Rightarrow> 'a) \<Rightarrow> (company \<Rightarrow> bool) option" where
  "eq_condition f value = (case f of None \<Rightarrow> Some (\<lambda>c. True) | Some x \<Rightarrow> Some (\<lambda>c. value c = x))"

definition number_condition ::
  "int option option \<Rightarrow> (int \<Rightarrow> int \<Rightarrow> bool) \<Rightarrow> (company \<Rightarrow> int option) \<Rightarrow> (company \<Rightarrow> bool) option" where
  "number_condition f rel value =
     (case f of
        None \<Rightarrow> Some (\<lambda>c. True)
      | Some None \<Rightarrow> None
      | Some (Some k) \<Rightarrow> Some (\<lambda>c. case value c of None \<Rightarrow> False | Some n \<Rightarrow> rel n k))"

definition Company_find :: "lib \<Rightarrow> store \<Rightarrow> filters \<Rightarrow> company list option" where
  "Company_find lb s f =
     (case those
        [regex_condition lb (f_name f) (\<lambda>c. [name c]),
         regex_condition lb (f_location f) location,
         eq_condition (f_industry f) industry,
         eq_condition (f_isActive f) isActive,
         number_condition (f_employees f) (\<ge>) employees,
         number_condition (f_createdAt f) (\<ge>) (\<lambda>c. Some (createdAt c)),
         number_condition (f_foundedYear f) (=) foundedYear] of
        None \<Rightarrow> None
      | Some conditions \<Rightarrow> Some (filter (\<lambda>c. list_all (\<lambda>holds. holds c) conditions) (docs s)))"

definition searchCompanies :: "lib \<Rightarrow> store \<Rightarrow> search_query \<Rightarrow> response" where
  "searchCompanies lb s q =
     (case Company_find lb s (build_filters lb q) of
        None \<Rightarrow> (500, Json_error)
      | Some companies \<Rightarrow> (200, Json_companies companies))"

section \<open>The wire shape of a response\<close>






section \<open>The statements of the specification\<close>

text \<open>
  The specification speaks of a case-insensitive substring match. This is that test, and
  the suggestions it describes: from the records one of whose fields matches, the field
  values that match.
\<close>

definition ci_substring :: "string \<Rightarrow> string \<Rightarrow> bool" where
  "ci_substring q v = sublist (toLowerCase q) (toLowerCase v)"

definition spec_suggestions :: "string \<Rightarrow> store \<Rightarrow> string set" where
  "spec_suggestions q s =
     {v. \<exists>c \<in> set (docs s).
           (ci_substring q (name c) \<or> ci_substring q (industry c)
            \<or> (\<exists>loc \<in> set (location c). ci_substring q loc))
           \<and> v \<in> set (name c # industry c # location c) \<and> ci_substring q v}"

text \<open>The class of conflict errors: the pre-check's 400 and the store's duplicate key.\<close>

fun conflict_class :: "thrown \<Rightarrow> bool" where
  "conflict_class (Thrown_ApiError e) =
     (e_statusCode e = 400 \<and> e_message e = ''Already existing company'')"
| "conflict_class (DuplicateKeyError k v) = True"
| "conflict_class e = False"

text \<open>A document whose name and email are as the setters of their paths leave them.\<close>

definition as_stored :: "company \<Rightarrow> bool" where
  "as_stored c = (name c = trim (name c) \<and> email c = toLowerCase (trim (email c)))"

text \<open>Names and emails are each unique across the documents of the store.\<close>

definition unique_names_emails :: "store \<Rightarrow> bool" where
  "unique_names_emails s = (distinct (map name (docs s)) \<and> distinct (map email (docs s)))"

text \<open>
  The constraints the specification gives for the search parameters. A parameter that is
  absent, or present with the empty value, constrains nothing. \<open>query_fails\<close> holds
  when a value that is given cannot be used: a pattern that does not compile, a number
  that is \<open>NaN\<close>, a date that is invalid.
\<close>

definition given :: "string option \<Rightarrow> bool" where
  "given p = (case p of None \<Rightarrow> False | Some x \<Rightarrow> x \<noteq> [])"

definition spec_industry_constraint :: "string option \<Rightarrow> company \<Rightarrow> bool" where
  "spec_industry_constraint p c = (if given p then Some (industry c) = p else True)"

definition spec_employees_constraint :: "lib \<Rightarrow> string option \<Rightarrow> company \<Rightarrow> bool" where
  "spec_employees_constraint lb p c =
     (if given p
      then (case (Number lb (the p), employees c) of (Some k, Some n) \<Rightarrow> k \<le> n | _ \<Rightarrow> False)
      else True)"

definition spec_pattern_constraint :: "lib \<Rightarrow> string option \<Rightarrow> string list \<Rightarrow> bool" where
  "spec_pattern_constraint lb p vs =
     (if given p
      then (case regex_i lb (the p) of Some m \<Rightarrow> (\<exists>v \<in> set vs. m v) | None \<Rightarrow> False)
      else True)"

definition spec_other_constraints :: "lib \<Rightarrow> search_query \<Rightarrow> company \<Rightarrow> bool" where
  "spec_other_constraints lb q c =
     (spec_pattern_constraint lb (q_name q) [name c]
      \<and> spec_pattern_constraint lb (q_location q) (location c)
      \<and> (case q_isActive q of None \<Rightarrow> True | Some x \<Rightarrow> isActive c = (x = ''true''))
      \<and> (if given (q_createdAt q)
          then (case Date lb (the (q_createdAt q)) of Some d \<Rightarrow> d \<le> createdAt c | None \<Rightarrow> False)
          else True)
      \<and> (if given (q_foundedYear q)
          then (case Number lb (the (q_foundedYear q)) of Some y \<Rightarrow> foundedYear c = Some y
                | None \<Rightarrow> False)
          else True))"

definition query_fails :: "lib \<Rightarrow> search_query \<Rightarrow> bool" where
  "query_fails lb q =
     ((given (q_name q) \<and> regex_i lb (the (q_name q)) = None)
      \<or> (given (q_location q) \<and> regex_i lb (the (q_location q)) = None)
      \<or> (given (q_employees q) \<and> Number lb (the (q_employees q)) = None)
      \<or> (given (q_createdAt q) \<and> Date lb (the (q_createdAt q)) = None)
      \<or> (given (q_foundedYear q) \<and> Number lb (the (q_foundedYear q)) = None))"

section \<open>Example data\<close>

definition example_lib :: lib where
  "example_lib =
     \<lparr> validators = (\<lambda>b. True),
       castObjectId = (\<lambda>i. if i = ''0'' then Some 0 else if i = ''1'' then Some 1 else None),
       castString = (\<lambda>v. case v of JStr x \<Rightarrow> Some (Some x) | JNull \<Rightarrow> Some None | _ \<Rightarrow> None),
       castStrings = strings_of,
       castBoolean = (\<lambda>v. case v of JBool x \<Rightarrow> Some x | _ \<Rightarrow> None),
       Number = (\<lambda>x. if x = ''50'' then Some 50 else if x = ''2010'' then Some 2010 else None),
       Date = (\<lambda>x. None),
       RegExp = (\<lambda>p. None),
       runtime_error =
         (\<lambda>t. \<lparr> x_name = ''Error'', x_message = ''name?.trim is not a function'',
                 x_statusCode = None, x_isOperational = False, x_code = JUndefined,
                 x_path = None, x_value = None, x_keyValue = [], x_errors = None,
                 x_validation = [], x_type = None \<rparr>),
       stack_of = (\<lambda>e. None) \<rparr>"


definition example_clock :: clock where
  "example_clock =
     \<lparr> toISOString = ''2025-08-24T10:30:00.000Z'', getFullYear = 2025, getTime = 1756031400000 \<rparr>"

definition empty_store :: store where
  "empty_store = \<lparr> docs = [], next_id = 0 \<rparr>"

definition tech_corp :: create_body where
  "tech_corp =
     \<lparr> b_name = JStr ''Tech Corp'', b_description = None, b_industry = JStr ''Technology'',
       b_foundedYear = None, b_location = JArr [JStr ''NY''], b_website = None,
       b_email = JStr ''a@b.com'', b_phone = None, b_employees = None, b_logo = None,
       b_headquarters = None, b_revenue = None \<rparr>"

definition tech_corp_doc :: company where
  "tech_corp_doc =
     \<lparr> cid = 0, name = ''Tech Corp'', description = None, industry = ''Technology'',
       foundedYear = None, location = [''NY''], website = None, email = ''a@b.com'',
       phone = None, employees = None, isActive = True, logo = None, headquarters = None,
       revenue = None, createdAt = 1756031400000, updatedAt = 1756031400000 \<rparr>"

definition tech_store :: store where
  "tech_store = \<lparr> docs = [tech_corp_doc], next_id = 1 \<rparr>"

definition tech_corp_other_email :: create_body where
  "tech_corp_other_email = tech_corp\<lparr> b_email := JStr ''c@d.com'' \<rparr>"

definition tech_corp_spaced :: create_body where
  "tech_corp_spaced =
     tech_corp\<lparr> b_name := JStr '' Tech Corp '', b_email := JStr ''other@b.com'',
                b_industry := JStr ''Banana'' \<rparr>"

definition tech_corp_no_location :: create_body where
  "tech_corp_no_location = tech_corp\<lparr> b_location := JUndefined \<rparr>"

definition number_name :: create_body where
  "number_name =
     tech_corp\<lparr> b_name := JNum 42, b_email := JUndefined, b_industry := JUndefined,
                b_location := JUndefined \<rparr>"

definition acme_doc :: company where
  "acme_doc =
     \<lparr> cid = 1, name = ''Acme Corp'', description = None, industry = ''Technology'',
       foundedYear = Some 2010, location = [''Berlin'', ''Paris''], website = None,
       email = ''hello@acme.com'', phone = None, employees = Some 60, isActive = True,
       logo = None, headquarters = None, revenue = None, createdAt = 1756031400000,
       updatedAt = 1756031400000 \<rparr>"

definition acme_labs_doc :: company where
  "acme_labs_doc =
     \<lparr> cid = 2, name = ''Acme Labs'', description = None, industry = ''Healthcare'',
       foundedYear = None, location = [''Berlin''], website = None,
       email = ''labs@acme.com'', phone = None, employees = Some 20, isActive = True,
       logo = None, headquarters = None, revenue = None, createdAt = 1756031400000,
       updatedAt = 1756031400000 \<rparr>"

definition acme_store :: store where
  "acme_store = \<lparr> docs = [tech_corp_doc, acme_doc, acme_labs_doc], next_id = 3 \<rparr>"

definition technology_50 :: search_query where
  "technology_50 =
     \<lparr> q_name = None, q_location = None, q_industry = Some ''Technology'', q_isActive = None,
       q_employees = Some ''50'', q_createdAt = None, q_foundedYear = None \<rparr>"

section \<open>Properties\<close>

subsection \<open>Auxiliary facts\<close>

lemma dropWhile_all: "(\<forall>x\<in>set (dropWhile P s). P x) \<longleftrightarrow> (\<forall>x\<in>set s. P x)"
proof
  assume a: "\<forall>x\<in>set (dropWhile P s). P x"
  have "dropWhile P s = []"
  proof (rule ccontr)
    assume ne: "dropWhile P s \<noteq> []"
    then have "\<not> P (hd (dropWhile P s))" by (rule hd_dropWhile)
    moreover have "hd (dropWhile P s) \<in> set (dropWhile P s)" using ne by simp
    ultimately show False using a by blast
  qed
  then show "\<forall>x\<in>set s. P x" by (simp add: dropWhile_eq_Nil_conv)
next
  assume "\<forall>x\<in>set s. P x"
  then show "\<forall>x\<in>set (dropWhile P s). P x" by (blast dest: set_dropWhileD)
qed

lemma trim_empty: "trim s = [] \<longleftrightarrow> list_all is_space s"
  by (simp add: trim_def dropWhile_eq_Nil_conv dropWhile_all list_all_iff)

lemma not_trimmed_cases:
  "not_trimmed v = Inr t \<longleftrightarrow>
     (v = JUndefined \<and> t) \<or> (v = JNull \<and> t) \<or> (\<exists>x. v = JStr x \<and> t = list_all is_space x)"
  by (cases v) (auto simp: trim_empty)

lemma not_trimmed_TypeError:
  "not_trimmed v = Inl e \<longleftrightarrow> e = TypeError \<and> v \<noteq> JUndefined \<and> v \<noteq> JNull \<and> (\<forall>x. v \<noteq> JStr x)"
  by (cases v) auto

lemma collect_errors_Nil:
  "collect_errors b = Inr [] \<longleftrightarrow>
     (\<exists>n e. b_name b = JStr n \<and> trim n \<noteq> [] \<and> b_email b = JStr e \<and> trim e \<noteq> []
        \<and> truthy (b_industry b) \<and> location_errors (b_location b) = [])"
  unfolding collect_errors_def
  apply (cases "b_name b"; cases "b_email b")
  apply (auto split: sum.splits)
  done

lemma location_errors_Nil:
  "location_errors v = [] \<longleftrightarrow> (\<exists>ls. v = JArr ls \<and> ls \<noteq> [] \<and> (\<forall>l \<in> set ls. \<exists>x. l = JStr x \<and> trim x \<noteq> []))"
proof (cases v)
  case (JArr ls)
  have "\<And>l. \<not> bad_location l \<longleftrightarrow> (\<exists>x. l = JStr x \<and> trim x \<noteq> [])"
    subgoal for l by (cases l) auto
    done
  then show ?thesis using JArr by auto
qed auto


lemma dropWhile_fix: "xs = [] \<or> \<not> P (hd xs) \<Longrightarrow> dropWhile P xs = xs"
  by (cases xs) auto

lemma trim_hd: "trim s \<noteq> [] \<Longrightarrow> \<not> is_space (hd (trim s))"
proof -
  assume ne: "trim s \<noteq> []"
  let ?u = "dropWhile is_space s"
  have "suffix (dropWhile is_space (rev ?u)) (rev ?u)" by (rule suffix_dropWhile)
  then have p: "prefix (trim s) ?u"
    by (simp add: trim_def suffix_to_prefix)
  have "?u \<noteq> []"
  proof
    assume "?u = []"
    with p have "trim s = []" by simp
    with ne show False by simp
  qed
  then have "\<not> is_space (hd ?u)" by (rule hd_dropWhile)
  moreover have "hd (trim s) = hd ?u" using p ne by (auto simp: prefix_def)
  ultimately show ?thesis by simp
qed

lemma trim_trim: "trim (trim s) = trim s"
proof -
  let ?u = "dropWhile is_space s"
  have 1: "dropWhile is_space (trim s) = trim s"
    using trim_hd [of s] by (intro dropWhile_fix) auto
  have "rev (trim s) = dropWhile is_space (rev ?u)" by (simp add: trim_def)
  then have 2: "dropWhile is_space (rev (trim s)) = rev (trim s)"
    by (simp add: dropWhile_idem)
  show ?thesis
    unfolding trim_def [of "trim s"] 1 2 by simp
qed

lemma is_space_nat: "is_space c = ((of_char c :: nat) \<in> {9, 10, 11, 12, 13, 32})"
proof -
  have e: "\<And>d n. (of_char d :: nat) = n \<Longrightarrow> (c = d) = ((of_char c :: nat) = n)" by auto
  show ?thesis
    unfolding is_space_def
    by (simp add: e [of "CHR 0x09" 9] e [of "CHR 0x0A" 10] e [of "CHR 0x0B" 11]
          e [of "CHR 0x0C" 12] e [of "CHR 0x0D" 13] e [of "CHR 0x20" 32])
qed

lemma of_char_lower:
  "(of_char (lower_char c) :: nat)
     = (if 65 \<le> (of_char c :: nat) \<and> (of_char c :: nat) \<le> 90 then of_char c + 32 else of_char c)"
  by (simp add: lower_char_def Let_def)

lemma is_space_lower: "is_space (lower_char c) = is_space c"
  unfolding is_space_nat of_char_lower by auto

lemma lower_lower: "lower_char (lower_char c) = lower_char c"
proof -
  have "(of_char (lower_char (lower_char c)) :: nat) = of_char (lower_char c)"
    unfolding of_char_lower [of "lower_char c"] unfolding of_char_lower [of c] by auto
  then show ?thesis by simp
qed

lemma trim_toLowerCase: "trim (toLowerCase x) = toLowerCase (trim x)"
proof -
  have c: "is_space \<circ> lower_char = is_space" by (simp add: fun_eq_iff is_space_lower)
  have d: "\<And>xs. dropWhile is_space (map lower_char xs) = map lower_char (dropWhile is_space xs)"
    by (simp add: dropWhile_map c)
  show ?thesis
    by (simp add: trim_def toLowerCase_def d rev_map)
qed

lemma set_email_twice: "toLowerCase (trim (toLowerCase (trim e))) = toLowerCase (trim e)"
proof -
  have "toLowerCase (trim (toLowerCase (trim e))) = toLowerCase (toLowerCase (trim (trim e)))"
    by (simp only: trim_toLowerCase)
  also have "\<dots> = toLowerCase (trim e)"
    by (simp add: trim_trim toLowerCase_def lower_lower)
  finally show ?thesis .
qed

lemma new_document_as_stored: "new_document clk i b = Some d \<Longrightarrow> as_stored d"
  by (auto simp: new_document_def as_stored_def trim_trim set_email_twice split: option.splits)

lemma findOne_None:
  "findOne_name_or_email s n e = None \<longleftrightarrow>
     \<not> (\<exists>c \<in> set (docs s). Some (name c) = map_option trim (string_of n)
                            \<or> Some (email c) = map_option (\<lambda>x. toLowerCase (trim x)) (string_of e))"
  by (auto simp: findOne_name_or_email_def find_None_iff)

lemma collect_errors_Inl: "collect_errors b = Inl e \<Longrightarrow> e = TypeError"
  by (auto simp: collect_errors_def not_trimmed_TypeError split: sum.splits)

lemma Company_create_Inl: "Company_create lb clk s b = Inl e \<Longrightarrow> e = ValidationError \<or> (\<exists>k v. e = DuplicateKeyError k v)"
  by (auto simp: Company_create_def split: option.splits if_splits)

lemma Company_create_Inr:
  "Company_create lb clk s b = Inr (d, s') \<longleftrightarrow>
     new_document clk (next_id s) b = Some d \<and> validators lb b
     \<and> \<not> (\<exists>c \<in> set (docs s). name c = name d) \<and> \<not> (\<exists>c \<in> set (docs s). email c = email d)
     \<and> s' = s\<lparr> docs := docs s @ [d], next_id := Suc (next_id s) \<rparr>"
  by (auto simp: Company_create_def split: option.splits if_splits)

lemma createCompany_Inr:
  "createCompany lb clk s b = (Inr r, s') \<longleftrightarrow>
     collect_errors b = Inr [] \<and> findOne_name_or_email s (b_name b) (b_email b) = None
     \<and> enum_includes industryEnum (b_industry b)
     \<and> (\<exists>d. Company_create lb clk s b = Inr (d, s')
            \<and> r = (201, Json_ApiResponse (ApiResponse clk 201 (Some ''Company created successfully'') (Some d) None)))"
  by (auto simp: createCompany_def split: sum.splits option.splits if_splits)

lemma createCompany_Inl_store: "createCompany lb clk s b = (Inl e, s') \<Longrightarrow> s' = s"
  by (auto simp: createCompany_def split: sum.splits option.splits if_splits)

lemma store_changed: "s\<lparr> docs := docs s @ [d], next_id := Suc (next_id s) \<rparr> \<noteq> s"
proof
  assume "s\<lparr> docs := docs s @ [d], next_id := Suc (next_id s) \<rparr> = s"
  then have "docs (s\<lparr> docs := docs s @ [d], next_id := Suc (next_id s) \<rparr>) = docs s" by simp
  then show False by simp
qed

lemma already_existing_iff:
  "fst (createCompany lb clk s b) = Inl (Thrown_ApiError (ApiError clk 400 (Some ''Already existing company'') None))
   \<longleftrightarrow> collect_errors b = Inr [] \<and> findOne_name_or_email s (b_name b) (b_email b) \<noteq> None"
  by (auto simp: createCompany_def badRequest_def ApiError_def invalid_industry_message_def
           dest: Company_create_Inl collect_errors_Inl split: sum.splits option.splits if_splits)

lemma invalid_industry_iff:
  "fst (createCompany lb clk s b) = Inl (Thrown_ApiError (badRequest clk invalid_industry_message None))
   \<longleftrightarrow> collect_errors b = Inr [] \<and> findOne_name_or_email s (b_name b) (b_email b) = None
       \<and> \<not> enum_includes industryEnum (b_industry b)"
  by (auto simp: createCompany_def badRequest_def ApiError_def invalid_industry_message_def
           dest: Company_create_Inl collect_errors_Inl split: sum.splits option.splits if_splits)

lemma missing_fields_iff:
  "fst (createCompany lb clk s b) = Inl (Thrown_ApiError (badRequest clk ''Missing fields'' (Some errors)))
   \<longleftrightarrow> collect_errors b = Inr errors \<and> errors \<noteq> []"
  by (auto simp: createCompany_def badRequest_def ApiError_def invalid_industry_message_def
           dest: Company_create_Inl collect_errors_Inl split: sum.splits option.splits if_splits)

lemma message_names_values: "list_all (\<lambda>v. sublist v invalid_industry_message) industryEnum"
  by code_simp

lemma new_document_name_email:
  "new_document clk i b = Some d \<Longrightarrow>
     (\<exists>n e. b_name b = JStr n \<and> b_email b = JStr e \<and> name d = trim n \<and> email d = toLowerCase (trim e))"
  unfolding new_document_def
  by (cases "b_name b"; cases "b_email b") (auto split: option.splits)

lemma new_document_id:
  "new_document clk i b = Some d \<Longrightarrow> \<exists>d'. new_document clk' i' b = Some d' \<and> name d' = name d \<and> email d' = email d"
  by (auto simp: new_document_def split: option.splits)

lemma create_then_conflict:
  assumes 1: "createCompany lb clk1 s b1 = (Inr r1, s1)"
    and 2: "createCompany lb clk2 s b2 = (Inr r2, s2)"
    and eq: "b_name b1 = b_name b2 \<or> b_email b1 = b_email b2"
  shows "\<exists>e. createCompany lb clk3 s1 b2 = (Inl e, s1) \<and> conflict_class e"
proof -
  from 1 obtain d1 where c1: "Company_create lb clk1 s b1 = Inr (d1, s1)"
    by (auto simp: createCompany_Inr)
  then have n1: "new_document clk1 (next_id s) b1 = Some d1"
    and s1: "s1 = s\<lparr> docs := docs s @ [d1], next_id := Suc (next_id s) \<rparr>"
    by (auto simp: Company_create_Inr)
  from 2 have ok: "collect_errors b2 = Inr []" "enum_includes industryEnum (b_industry b2)"
    by (auto simp: createCompany_Inr)
  from 2 obtain d2 where c2: "Company_create lb clk2 s b2 = Inr (d2, s2)"
    by (auto simp: createCompany_Inr)
  then have n2: "new_document clk2 (next_id s) b2 = Some d2" and v2: "validators lb b2"
    by (auto simp: Company_create_Inr)
  from new_document_id [OF n2, of clk3 "next_id s1"]
  obtain d3 where n3: "new_document clk3 (next_id s1) b2 = Some d3"
    and nm3: "name d3 = name d2" and em3: "email d3 = email d2" by blast
  from new_document_name_email [OF n1] new_document_name_email [OF n2] eq
  have same: "name d1 = name d2 \<or> email d1 = email d2" by auto
  have d1in: "d1 \<in> set (docs s1)" using s1 by simp
  show ?thesis
  proof (cases "findOne_name_or_email s1 (b_name b2) (b_email b2)")
    case (Some c)
    then have "createCompany lb clk3 s1 b2 =
      (Inl (Thrown_ApiError (ApiError clk3 400 (Some ''Already existing company'') None)), s1)"
      using ok by (simp add: createCompany_def)
    then show ?thesis by (simp add: ApiError_def)
  next
    case None
    have dup: "(\<exists>d \<in> set (docs s1). name d = name d3) \<or> (\<exists>d \<in> set (docs s1). email d = email d3)"
      using same d1in nm3 em3 by metis
    then have "\<exists>k v. Company_create lb clk3 s1 b2 = Inl (DuplicateKeyError k v)"
      using n3 v2 by (auto simp: Company_create_def)
    then obtain k v where "Company_create lb clk3 s1 b2 = Inl (DuplicateKeyError k v)" by blast
    then have "createCompany lb clk3 s1 b2 = (Inl (DuplicateKeyError k v), s1)"
      using ok None by (simp add: createCompany_def)
    then show ?thesis by simp
  qed
qed

lemma createCompany_unique:
  assumes "unique_names_emails s"
  shows "unique_names_emails (snd (createCompany lb clk s b))"
proof (cases "createCompany lb clk s b")
  case (Pair r s')
  show ?thesis
  proof (cases r)
    case (Inl e)
    then have "s' = s" using Pair createCompany_Inl_store by blast
    then show ?thesis using assms Pair by simp
  next
    case (Inr x)
    then obtain d where "Company_create lb clk s b = Inr (d, s')"
      using Pair by (auto simp: createCompany_Inr)
    then have "\<not> (\<exists>c \<in> set (docs s). name c = name d)" "\<not> (\<exists>c \<in> set (docs s). email c = email d)"
      and "docs s' = docs s @ [d]"
      by (auto simp: Company_create_Inr)
    then show ?thesis using assms Pair by (auto simp: unique_names_emails_def)
  qed
qed

lemma cast_path_keeps:
  "cast_path lb kv = Some f \<Longrightarrow> name (f c) = name c \<and> email (f c) = email c \<and> cid (f c) = cid c"
  by (cases kv) (auto simp: cast_path_def split: if_splits)

lemma cast_update_keeps:
  "cast_update lb kvs = Some f \<Longrightarrow> name (f c) = name c \<and> email (f c) = email c \<and> cid (f c) = cid c"
proof (induction kvs arbitrary: f c)
  case Nil
  then show ?case by auto
next
  case (Cons kv kvs)
  then obtain g h where g: "cast_path lb kv = Some g" and h: "cast_update lb kvs = Some h"
    and f: "f = (\<lambda>c. h (g c))"
    by (auto split: option.splits)
  show ?case using Cons.IH [OF h, of "g c"] cast_path_keeps [OF g, of c] f by simp
qed

lemma replace_doc_keeps:
  "find (\<lambda>c. cid c = k) cs = Some c \<Longrightarrow> cid d = k \<Longrightarrow> name d = name c \<Longrightarrow> email d = email c \<Longrightarrow>
     map name (replace_doc d cs) = map name cs \<and> map email (replace_doc d cs) = map email cs"
  by (induction cs) (auto split: if_splits)

lemma find_cid: "find (\<lambda>c. cid c = k) cs = Some c \<Longrightarrow> cid c = k"
  by (induction cs) (auto split: if_splits)

lemma updateCompany_unique:
  assumes "unique_names_emails s"
  shows "unique_names_emails (snd (updateCompany lb clk s i u))"
proof -
  have "unique_names_emails s'" if "findByIdAndUpdate lb clk s i ud = Some (r, s')" for ud r s'
  proof -
    from that obtain k f where k: "castObjectId lb i = Some k" and f: "cast_update lb ud = Some f"
      by (auto simp: findByIdAndUpdate_def split: option.splits)
    show ?thesis
    proof (cases "find (\<lambda>c. cid c = k) (docs s)")
      case None
      then show ?thesis using that k f assms by (simp add: findByIdAndUpdate_def)
    next
      case (Some c)
      let ?d = "(f c)\<lparr> updatedAt := getTime clk \<rparr>"
      have s': "s' = s\<lparr> docs := replace_doc ?d (docs s) \<rparr>"
        using that k f Some by (simp add: findByIdAndUpdate_def Let_def)
      have "cid ?d = k" "name ?d = name c" "email ?d = email c"
        using cast_update_keeps [OF f, of c] find_cid [OF Some] by auto
      from replace_doc_keeps [OF Some this] show ?thesis
        using assms s' by (simp add: unique_names_emails_def)
    qed
  qed
  then show ?thesis using assms
    by (auto simp: updateCompany_def Let_def split: option.splits prod.splits)
qed

lemma deleteCompany_unique:
  assumes "unique_names_emails s"
  shows "unique_names_emails (snd (deleteCompany lb s i))"
  using assms
  by (auto simp: deleteCompany_def findByIdAndDelete_def unique_names_emails_def distinct_map_filter
           split: option.splits prod.splits)


lemma collect_errors_text_or_absent:
  assumes "not_trimmed (b_name b) = Inr no_name" and "not_trimmed (b_email b) = Inr no_email"
  shows "collect_errors b =
           Inr ((if no_name then [''Name is required''] else [])
                @ (if no_email then [''Email is required''] else [])
                @ (if \<not> truthy (b_industry b) then [''Industry is required''] else [])
                @ location_errors (b_location b))"
  using assms by (simp add: collect_errors_def)

lemma createCompany_reports_all:
  assumes "not_trimmed (b_name b) = Inr no_name" and "not_trimmed (b_email b) = Inr no_email"
    and "no_name \<or> no_email \<or> \<not> truthy (b_industry b) \<or> location_errors (b_location b) \<noteq> []"
  shows "createCompany lb clk s b =
           (Inl (Thrown_ApiError
              (badRequest clk ''Missing fields''
                 (Some ((if no_name then [''Name is required''] else [])
                        @ (if no_email then [''Email is required''] else [])
                        @ (if \<not> truthy (b_industry b) then [''Industry is required''] else [])
                        @ location_errors (b_location b))))), s)"
  using assms(3) by (auto simp: createCompany_def collect_errors_text_or_absent [OF assms(1,2)])

lemma collect_updates_mem:
  "(k, v) \<in> set (collect_updates u fs) \<longleftrightarrow> k \<in> set fs \<and> v = get_key u k \<and> v \<noteq> JUndefined"
  by (induction fs) auto

lemma collect_updates_Nil:
  "collect_updates u fs = [] \<longleftrightarrow> (\<forall>k \<in> set fs. get_key u k = JUndefined)"
  by (induction fs) auto

lemma get_key_outside: "k \<notin> fst ` set u \<Longrightarrow> get_key u k = JUndefined"
  by (simp add: get_key_def map_of_eq_None_iff [THEN iffD2])

lemma updateCompany_not_400:
  "collect_updates u allowedFields \<noteq> [] \<Longrightarrow> fst (fst (updateCompany lb clk s i u)) \<noteq> 400"
  by (auto simp: updateCompany_def Let_def split: option.splits prod.splits)




lemma match_here_literal:
  "\<not> (\<exists>c \<in> set q. is_meta c) \<Longrightarrow> match_here q v = prefix (toLowerCase q) (toLowerCase v)"
proof (induction q v rule: match_here.induct)
  case (3 p ps c cs)
  then have "p \<noteq> CHR ''.''" by (auto simp: is_meta_def)
  then show ?case using 3 by (simp add: atom_matches_def toLowerCase_def)
qed (simp_all add: toLowerCase_def)

lemma match_anywhere_literal:
  "\<not> (\<exists>c \<in> set q. is_meta c) \<Longrightarrow> match_anywhere q v = ci_substring q v"
proof (induction v)
  case Nil
  then show ?case by (cases q) (simp_all add: ci_substring_def toLowerCase_def)
next
  case (Cons c cs)
  then show ?case
    using match_here_literal [of q "c # cs"]
    by (simp add: ci_substring_def sublist_Cons_right toLowerCase_def)
qed

lemma regex_i_literal: "\<not> (\<exists>c \<in> set q. is_meta c) \<Longrightarrow> regex_i lb q = Some (match_anywhere q)"
  by (auto simp: regex_i_def)

lemma set_add: "set (add r v) = insert v (set r)"
  by (auto simp: add_def)

lemma distinct_add: "distinct r \<Longrightarrow> distinct (add r v)"
  by (simp add: add_def)

lemma foldl_add_if:
  "set (foldl (add_if m) r vs) = set r \<union> {v \<in> set vs. m v}
   \<and> (distinct r \<longrightarrow> distinct (foldl (add_if m) r vs))"
  by (induction vs arbitrary: r) (auto simp: add_if_def set_add distinct_add)

lemma foldl_suggestions:
  "set (foldl (\<lambda>result c. foldl (add_if m) (add_if m (add_if m result (name c)) (industry c)) (location c)) r cs)
     = set r \<union> {v. \<exists>c \<in> set cs. v \<in> set (name c # industry c # location c) \<and> m v}
   \<and> (distinct r \<longrightarrow>
        distinct (foldl (\<lambda>result c. foldl (add_if m) (add_if m (add_if m result (name c)) (industry c)) (location c)) r cs))"
proof (induction cs arbitrary: r)
  case Nil
  then show ?case by simp
next
  case (Cons c cs)
  let ?f = "\<lambda>result c. foldl (add_if m) (add_if m (add_if m result (name c)) (industry c)) (location c)"
  let ?r = "foldl (add_if m) r (name c # industry c # location c)"
  have step: "foldl ?f r (c # cs) = foldl ?f ?r cs" by simp
  have r: "set ?r = set r \<union> {v \<in> set (name c # industry c # location c). m v}"
    "distinct r \<longrightarrow> distinct ?r"
    using foldl_add_if [of m r "name c # industry c # location c"] by blast+
  have ih: "set (foldl ?f ?r cs)
       = set ?r \<union> {v. \<exists>c \<in> set cs. v \<in> set (name c # industry c # location c) \<and> m v}"
    "distinct ?r \<longrightarrow> distinct (foldl ?f ?r cs)"
    using Cons.IH [of ?r] by blast+
  have "set (foldl ?f r (c # cs))
       = set r \<union> {v. \<exists>c \<in> set (c # cs). v \<in> set (name c # industry c # location c) \<and> m v}"
    unfolding step ih(1) r(1) by auto
  moreover have "distinct r \<longrightarrow> distinct (foldl ?f r (c # cs))"
    unfolding step using ih(2) r(2) by blast
  ultimately show ?case by blast
qed

lemma searchSuggestion_regex:
  assumes "regex_i lb q = Some m"
  shows "\<exists>result. searchSuggestion lb s (Some q) = (200, Json_strings result) \<and> distinct result
           \<and> set result = {v. \<exists>c \<in> set (docs s). v \<in> set (name c # industry c # location c) \<and> m v}"
proof -
  let ?f = "\<lambda>result c. foldl (add_if m) (add_if m (add_if m result (name c)) (industry c)) (location c)"
  have "searchSuggestion lb s (Some q) = (200, Json_strings (foldl ?f [] (find_suggestions m s)))"
    using assms by (simp add: searchSuggestion_def)
  moreover have "distinct (foldl ?f [] (find_suggestions m s))"
    using foldl_suggestions [of m "[]" "find_suggestions m s"] by simp
  moreover have "set (foldl ?f [] (find_suggestions m s))
      = {v. \<exists>c \<in> set (docs s). v \<in> set (name c # industry c # location c) \<and> m v}"
    using foldl_suggestions [of m "[]" "find_suggestions m s"]
    by (auto simp: find_suggestions_def)
  ultimately show ?thesis by blast
qed

lemma spec_suggestions_alt:
  "spec_suggestions q s
     = {v. \<exists>c \<in> set (docs s). v \<in> set (name c # industry c # location c) \<and> ci_substring q v}"
  by (auto simp: spec_suggestions_def)

lemma regex_condition_spec:
  "regex_condition lb (if_given p (\<lambda>x. x)) values
     = (if given p \<and> regex_i lb (the p) = None then None
        else Some (\<lambda>c. spec_pattern_constraint lb p (values c)))"
  by (auto simp: regex_condition_def if_given_def given_def spec_pattern_constraint_def 
           split: option.splits)

lemma industry_condition_spec:
  "eq_condition (if_given p (\<lambda>x. x)) industry = Some (spec_industry_constraint p)"
  by (auto simp: eq_condition_def if_given_def given_def spec_industry_constraint_def 
           split: option.splits)

lemma isActive_condition_spec:
  "eq_condition (case p of None \<Rightarrow> None | Some x \<Rightarrow> Some (x = ''true'')) isActive
     = Some (\<lambda>c. case p of None \<Rightarrow> True | Some x \<Rightarrow> isActive c = (x = ''true''))"
  by (auto simp: eq_condition_def split: option.splits)

lemma employees_condition_spec:
  "number_condition (if_given p (Number lb)) (\<ge>) employees
     = (if given p \<and> Number lb (the p) = None then None
        else Some (spec_employees_constraint lb p))"
  by (auto simp: number_condition_def if_given_def given_def spec_employees_constraint_def 
           split: option.splits)

lemma createdAt_condition_spec:
  "number_condition (if_given p (Date lb)) (\<ge>) (\<lambda>c. Some (createdAt c))
     = (if given p \<and> Date lb (the p) = None then None
        else Some (\<lambda>c. if given p
                        then (case Date lb (the p) of Some d \<Rightarrow> d \<le> createdAt c | None \<Rightarrow> False)
                        else True))"
  by (auto simp: number_condition_def if_given_def given_def split: option.splits)

lemma foundedYear_condition_spec:
  "number_condition (if_given p (Number lb)) (=) foundedYear
     = (if given p \<and> Number lb (the p) = None then None
        else Some (\<lambda>c. if given p
                        then (case Number lb (the p) of Some y \<Rightarrow> foundedYear c = Some y
                              | None \<Rightarrow> False)
                        else True))"
  by (auto simp: number_condition_def if_given_def given_def split: option.splits)

lemma Company_find_spec:
  "Company_find lb s (build_filters lb q)
     = (if query_fails lb q then None
        else Some (filter (\<lambda>c. spec_industry_constraint (q_industry q) c
                               \<and> spec_employees_constraint lb (q_employees q) c
                               \<and> spec_other_constraints lb q c) (docs s)))"
proof (cases "query_fails lb q")
  case True
  then show ?thesis
    unfolding Company_find_def build_filters_def filters.simps
      regex_condition_spec industry_condition_spec isActive_condition_spec
      employees_condition_spec createdAt_condition_spec foundedYear_condition_spec
    by (auto simp: query_fails_def split: option.splits)
next
  case False
  then have ok: "\<not> (given (q_name q) \<and> regex_i lb (the (q_name q)) = None)"
    "\<not> (given (q_location q) \<and> regex_i lb (the (q_location q)) = None)"
    "\<not> (given (q_employees q) \<and> Number lb (the (q_employees q)) = None)"
    "\<not> (given (q_createdAt q) \<and> Date lb (the (q_createdAt q)) = None)"
    "\<not> (given (q_foundedYear q) \<and> Number lb (the (q_foundedYear q)) = None)"
    by (auto simp: query_fails_def)
  have "(\<lambda>c. spec_pattern_constraint lb (q_name q) [name c]
            \<and> spec_pattern_constraint lb (q_location q) (location c)
            \<and> spec_industry_constraint (q_industry q) c
            \<and> (case q_isActive q of None \<Rightarrow> True | Some x \<Rightarrow> isActive c = (x = ''true''))
            \<and> spec_employees_constraint lb (q_employees q) c
            \<and> (if given (q_createdAt q)
                then (case Date lb (the (q_createdAt q)) of Some d \<Rightarrow> d \<le> createdAt c | None \<Rightarrow> False)
                else True)
            \<and> (if given (q_foundedYear q)
                then (case Number lb (the (q_foundedYear q)) of Some y \<Rightarrow> foundedYear c = Some y
                      | None \<Rightarrow> False)
                else True))
        = (\<lambda>c. spec_industry_constraint (q_industry q) c
                               \<and> spec_employees_constraint lb (q_employees q) c
                               \<and> spec_other_constraints lb q c)"
    by (auto simp: spec_other_constraints_def fun_eq_iff)
  then show ?thesis
    unfolding Company_find_def build_filters_def filters.simps
      regex_condition_spec industry_condition_spec isActive_condition_spec
      employees_condition_spec createdAt_condition_spec foundedYear_condition_spec
    using False ok by simp
qed

lemma create_tech_corp:
  "createCompany example_lib example_clock empty_store tech_corp =
     (Inr (201, Json_ApiResponse
             (ApiResponse example_clock 201 (Some ''Company created successfully'')
                (Some tech_corp_doc) None)), tech_store)"
  by code_simp

lemma create_other_email:
  "\<exists>r s'. createCompany example_lib example_clock empty_store tech_corp_other_email = (Inr r, s')"
proof -
  have "\<not> isl (fst (createCompany example_lib example_clock empty_store tech_corp_other_email))"
    by code_simp
  then show ?thesis
    by (cases "createCompany example_lib example_clock empty_store tech_corp_other_email";
        cases "fst (createCompany example_lib example_clock empty_store tech_corp_other_email)") auto
qed

lemma tech_store_not_empty: "tech_store \<noteq> empty_store"
  by (simp add: tech_store_def empty_store_def)













subsection \<open>The claims\<close>

text \<open>
  C1, as amended. Names and emails stay unique: the empty collection has the property and
  create, update and delete keep it. For two create requests with the same name or the
  same email, each of which would succeed on the present store by itself, whichever is
  handled first leaves the other to fail with a conflict (the pre-check's 400 or the
  store's duplicate key), and the failed request writes nothing.
\<close>

theorem unique_names_emails_kept:
  "unique_names_emails \<lparr> docs = [], next_id = n \<rparr>
   \<and> (unique_names_emails s \<longrightarrow>
         unique_names_emails (snd (createCompany lb clk s b))
         \<and> unique_names_emails (snd (updateCompany lb clk s i u))
         \<and> unique_names_emails (snd (deleteCompany lb s i)))
   \<and> (createCompany lb clk1 s b1 = (Inr r1, s1) \<and> createCompany lb clk2 s b2 = (Inr r2, s2)
        \<and> (b_name b1 = b_name b2 \<or> b_email b1 = b_email b2) \<longrightarrow>
          (\<exists>e. createCompany lb clk3 s1 b2 = (Inl e, s1) \<and> conflict_class e)
          \<and> (\<exists>e. createCompany lb clk3 s2 b1 = (Inl e, s2) \<and> conflict_class e))"
proof -
  have "b_name b2 = b_name b1 \<or> b_email b2 = b_email b1"
    if "b_name b1 = b_name b2 \<or> b_email b1 = b_email b2"
    using that by auto
  then show ?thesis
    using createCompany_unique [of s lb clk b] updateCompany_unique [of s lb clk i u]
      deleteCompany_unique [of s lb i]
      create_then_conflict [of lb clk1 s b1 r1 s1 clk2 b2 r2 s2 clk3]
      create_then_conflict [of lb clk2 s b2 r2 s2 clk1 b1 r1 s1 clk3]
    by (simp add: unique_names_emails_def)
qed

theorem unique_names_emails_kept_witness:
  "unique_names_emails empty_store
   \<and> unique_names_emails (snd (createCompany example_lib example_clock empty_store tech_corp))
   \<and> createCompany example_lib example_clock empty_store tech_corp
       = (Inr (201, Json_ApiResponse
                 (ApiResponse example_clock 201 (Some ''Company created successfully'')
                    (Some tech_corp_doc) None)), tech_store)
   \<and> b_name tech_corp = b_name tech_corp_other_email
   \<and> (\<exists>e. createCompany example_lib example_clock tech_store tech_corp_other_email = (Inl e, tech_store)
          \<and> conflict_class e)"
proof -
  have e: "unique_names_emails empty_store"
    by (simp add: unique_names_emails_def empty_store_def)
  have n: "b_name tech_corp = b_name tech_corp_other_email"
    by (simp add: tech_corp_other_email_def)
  obtain r2 s2 where
    o: "createCompany example_lib example_clock empty_store tech_corp_other_email = (Inr r2, s2)"
    using create_other_email by blast
  show ?thesis
    using unique_names_emails_kept [of 0 empty_store example_lib example_clock tech_corp
        "''0''" "[]" example_clock tech_corp _ tech_store example_clock tech_corp_other_email r2 s2
        example_clock]
      e n o create_tech_corp
    by simp
qed

text \<open>
  The claim as it is written does not hold: after a request has created ``Tech Corp'', a
  request with the same name and no location fails field validation, which is not a
  conflict.
\<close>

theorem same_name_fails_without_conflict:
  "b_name tech_corp = b_name tech_corp_no_location
   \<and> createCompany example_lib example_clock empty_store tech_corp
       = (Inr (201, Json_ApiResponse
                 (ApiResponse example_clock 201 (Some ''Company created successfully'')
                    (Some tech_corp_doc) None)), tech_store)
   \<and> createCompany example_lib example_clock tech_store tech_corp_no_location
       = (Inl (Thrown_ApiError
                 (badRequest example_clock ''Missing fields''
                    (Some [''At least one location is required'']))), tech_store)
   \<and> \<not> conflict_class (Thrown_ApiError
                 (badRequest example_clock ''Missing fields''
                    (Some [''At least one location is required''])))"
proof -
  have "createCompany example_lib example_clock tech_store tech_corp_no_location
       = (Inl (Thrown_ApiError
                 (badRequest example_clock ''Missing fields''
                    (Some [''At least one location is required'']))), tech_store)"
    by code_simp
  then show ?thesis
    by (simp add: create_tech_corp tech_corp_no_location_def badRequest_def ApiError_def)
qed

text \<open>
  C2. With a name that is a number the first check throws: the handler ends in a
  TypeError and reports neither the missing email nor the missing industry nor the
  missing location.
\<close>

theorem createCompany_number_name:
  "createCompany example_lib example_clock empty_store number_name = (Inl TypeError, empty_store)"
  by code_simp

text \<open>
  C3. In the create operation the duplicate check runs only once field validation has
  passed, the industry check only once no duplicate was found, and the insert only once
  all three have passed. The handler fails with ``Already existing company'' exactly when
  validation passes and a stored record has the name or the email of the request, as the
  store casts them for the query (the name trimmed, the email trimmed and lower-cased); so
  it does when the name or the email of the request is exactly that of a stored record,
  stored records being as the setters leave them. It fails with the message that names
  the allowed industries exactly when validation passes, no such record exists and the
  industry is not in the enumeration. The store changes only by the insert after all
  checks; whenever the handler fails, the store is as before.
\<close>

theorem createCompany_checks_before_insert:
  "(fst (createCompany lb clk s b)
      = Inl (Thrown_ApiError (ApiError clk 400 (Some ''Already existing company'') None))
    \<longleftrightarrow> (\<exists>n e. b_name b = JStr n \<and> b_email b = JStr e \<and> collect_errors b = Inr []
               \<and> (\<exists>c \<in> set (docs s). name c = trim n \<or> email c = toLowerCase (trim e))))
   \<and> (collect_errors b = Inr []
       \<and> (\<exists>c \<in> set (docs s). as_stored c \<and> (JStr (name c) = b_name b \<or> JStr (email c) = b_email b))
       \<longrightarrow> fst (createCompany lb clk s b)
             = Inl (Thrown_ApiError (ApiError clk 400 (Some ''Already existing company'') None)))
   \<and> ((\<forall>c \<in> set (docs s). as_stored c)
       \<longrightarrow> (\<forall>c \<in> set (docs (snd (createCompany lb clk s b))). as_stored c))
   \<and> (fst (createCompany lb clk s b)
        = Inl (Thrown_ApiError (badRequest clk invalid_industry_message None))
      \<longleftrightarrow> (\<exists>n e. b_name b = JStr n \<and> b_email b = JStr e \<and> collect_errors b = Inr []
                 \<and> \<not> (\<exists>c \<in> set (docs s). name c = trim n \<or> email c = toLowerCase (trim e))
                 \<and> \<not> enum_includes industryEnum (b_industry b)))
   \<and> list_all (\<lambda>v. sublist v invalid_industry_message) industryEnum
   \<and> (snd (createCompany lb clk s b) \<noteq> s \<longrightarrow>
        (\<exists>n e. b_name b = JStr n \<and> b_email b = JStr e \<and> collect_errors b = Inr []
               \<and> \<not> (\<exists>c \<in> set (docs s). name c = trim n \<or> email c = toLowerCase (trim e)))
        \<and> enum_includes industryEnum (b_industry b)
        \<and> (\<exists>d. snd (createCompany lb clk s b) = s\<lparr> docs := docs s @ [d], next_id := Suc (next_id s) \<rparr>
               \<and> fst (createCompany lb clk s b)
                   = Inr (201, Json_ApiResponse
                            (ApiResponse clk 201 (Some ''Company created successfully'') (Some d) None))))
   \<and> (\<forall>e. fst (createCompany lb clk s b) = Inl e \<longrightarrow> snd (createCompany lb clk s b) = s)"
proof -
  have found: "findOne_name_or_email s (b_name b) (b_email b) \<noteq> None
       \<longleftrightarrow> (\<exists>c \<in> set (docs s). name c = trim n \<or> email c = toLowerCase (trim e))"
    if "b_name b = JStr n" "b_email b = JStr e" for n e
    using that findOne_None [of s "b_name b" "b_email b"] by auto
  have strings: "\<exists>n e. b_name b = JStr n \<and> b_email b = JStr e" if "collect_errors b = Inr []"
    using that by (auto simp: collect_errors_Nil)
  have 1: "fst (createCompany lb clk s b)
      = Inl (Thrown_ApiError (ApiError clk 400 (Some ''Already existing company'') None))
    \<longleftrightarrow> (\<exists>n e. b_name b = JStr n \<and> b_email b = JStr e \<and> collect_errors b = Inr []
               \<and> (\<exists>c \<in> set (docs s). name c = trim n \<or> email c = toLowerCase (trim e)))"
    unfolding already_existing_iff using found strings by blast
  have 2: "fst (createCompany lb clk s b)
             = Inl (Thrown_ApiError (ApiError clk 400 (Some ''Already existing company'') None))"
    if v: "collect_errors b = Inr []"
      and m: "\<exists>c \<in> set (docs s). as_stored c \<and> (JStr (name c) = b_name b \<or> JStr (email c) = b_email b)"
  proof -
    from strings [OF v] obtain n e where ne: "b_name b = JStr n" "b_email b = JStr e" by blast
    from m obtain c where c: "c \<in> set (docs s)" "as_stored c"
      "JStr (name c) = b_name b \<or> JStr (email c) = b_email b" by blast
    then have "name c = trim n \<or> email c = toLowerCase (trim e)"
      using ne by (auto simp: as_stored_def)
    then show ?thesis using 1 ne v c(1) by blast
  qed
  have 3: "\<forall>c \<in> set (docs (snd (createCompany lb clk s b))). as_stored c"
    if inv: "\<forall>c \<in> set (docs s). as_stored c"
  proof (cases "snd (createCompany lb clk s b) = s")
    case True
    then show ?thesis using inv by simp
  next
    case False
    then obtain r where r: "fst (createCompany lb clk s b) = Inr r"
      by (cases "createCompany lb clk s b"; cases "fst (createCompany lb clk s b)")
         (auto dest: createCompany_Inl_store)
    then have "createCompany lb clk s b = (Inr r, snd (createCompany lb clk s b))"
      by (metis prod.collapse)
    then obtain d where "Company_create lb clk s b = Inr (d, snd (createCompany lb clk s b))"
      unfolding createCompany_Inr by blast
    then have "new_document clk (next_id s) b = Some d"
      and "docs (snd (createCompany lb clk s b)) = docs s @ [d]"
      unfolding Company_create_Inr by auto
    then show ?thesis using inv new_document_as_stored by auto
  qed
  have 4: "fst (createCompany lb clk s b)
        = Inl (Thrown_ApiError (badRequest clk invalid_industry_message None))
      \<longleftrightarrow> (\<exists>n e. b_name b = JStr n \<and> b_email b = JStr e \<and> collect_errors b = Inr []
                 \<and> \<not> (\<exists>c \<in> set (docs s). name c = trim n \<or> email c = toLowerCase (trim e))
                 \<and> \<not> enum_includes industryEnum (b_industry b))"
    unfolding invalid_industry_iff using found strings by blast
  have changed: "snd (createCompany lb clk s b) \<noteq> s \<Longrightarrow> \<exists>r. fst (createCompany lb clk s b) = Inr r"
    by (cases "createCompany lb clk s b"; cases "fst (createCompany lb clk s b)")
       (auto dest: createCompany_Inl_store)
  have 6: "(\<exists>n e. b_name b = JStr n \<and> b_email b = JStr e \<and> collect_errors b = Inr []
               \<and> \<not> (\<exists>c \<in> set (docs s). name c = trim n \<or> email c = toLowerCase (trim e)))
        \<and> enum_includes industryEnum (b_industry b)
        \<and> (\<exists>d. snd (createCompany lb clk s b) = s\<lparr> docs := docs s @ [d], next_id := Suc (next_id s) \<rparr>
               \<and> fst (createCompany lb clk s b)
                   = Inr (201, Json_ApiResponse
                            (ApiResponse clk 201 (Some ''Company created successfully'') (Some d) None)))"
    if "snd (createCompany lb clk s b) \<noteq> s"
  proof -
    from that obtain r where r: "fst (createCompany lb clk s b) = Inr r" using changed by blast
    then have "createCompany lb clk s b = (Inr r, snd (createCompany lb clk s b))"
      by (metis prod.collapse)
    then obtain d where pre: "collect_errors b = Inr []"
        "findOne_name_or_email s (b_name b) (b_email b) = None"
        "enum_includes industryEnum (b_industry b)"
      and d: "Company_create lb clk s b = Inr (d, snd (createCompany lb clk s b))"
      and rd: "r = (201, Json_ApiResponse
                      (ApiResponse clk 201 (Some ''Company created successfully'') (Some d) None))"
      unfolding createCompany_Inr by blast
    from d have sd: "snd (createCompany lb clk s b) = s\<lparr> docs := docs s @ [d], next_id := Suc (next_id s) \<rparr>"
      unfolding Company_create_Inr by blast
    from strings [OF pre(1)] obtain n e where ne: "b_name b = JStr n" "b_email b = JStr e" by blast
    have "\<not> (\<exists>c \<in> set (docs s). name c = trim n \<or> email c = toLowerCase (trim e))"
      using found [OF ne] pre(2) by simp
    then show ?thesis using pre ne sd r rd by blast
  qed
  have 7: "\<forall>e. fst (createCompany lb clk s b) = Inl e \<longrightarrow> snd (createCompany lb clk s b) = s"
    by (metis createCompany_Inl_store prod.collapse)
  show ?thesis
    using 1 2 3 4 message_names_values 6 7 by (intro conjI impI) blast+
qed

theorem createCompany_checks_before_insert_witness:
  "snd (createCompany example_lib example_clock empty_store tech_corp) \<noteq> empty_store
   \<and> collect_errors tech_corp = Inr []
   \<and> enum_includes industryEnum (b_industry tech_corp)
   \<and> as_stored tech_corp_doc
   \<and> JStr (name tech_corp_doc) = b_name tech_corp
   \<and> fst (createCompany example_lib example_clock tech_store tech_corp)
       = Inl (Thrown_ApiError (ApiError example_clock 400 (Some ''Already existing company'') None))
   \<and> snd (createCompany example_lib example_clock tech_store tech_corp) = tech_store
   \<and> b_name tech_corp_spaced = JStr '' Tech Corp ''
   \<and> name tech_corp_doc = trim '' Tech Corp ''
   \<and> \<not> enum_includes industryEnum (b_industry tech_corp_spaced)
   \<and> fst (createCompany example_lib example_clock tech_store tech_corp_spaced)
       = Inl (Thrown_ApiError (ApiError example_clock 400 (Some ''Already existing company'') None))"
proof -
  have a: "snd (createCompany example_lib example_clock empty_store tech_corp) \<noteq> empty_store"
    by (simp add: create_tech_corp tech_store_not_empty)
  have st: "as_stored tech_corp_doc" by code_simp
  have m: "JStr (name tech_corp_doc) = b_name tech_corp"
    by (simp add: tech_corp_doc_def tech_corp_def)
  have d: "tech_corp_doc \<in> set (docs tech_store)" by (simp add: tech_store_def)
  have sp: "b_name tech_corp_spaced = JStr '' Tech Corp ''"
    "b_email tech_corp_spaced = JStr ''other@b.com''"
    "\<not> enum_includes industryEnum (b_industry tech_corp_spaced)"
    by (simp_all add: tech_corp_spaced_def tech_corp_def industryEnum_def)
  have v: "collect_errors tech_corp_spaced = Inr []" by code_simp
  have t: "name tech_corp_doc = trim '' Tech Corp ''" by code_simp
  have 1: "fst (createCompany example_lib example_clock tech_store tech_corp_spaced)
       = Inl (Thrown_ApiError (ApiError example_clock 400 (Some ''Already existing company'') None))"
    using createCompany_checks_before_insert [of example_lib example_clock tech_store tech_corp_spaced]
      sp v t d by blast
  have 2: "collect_errors tech_corp = Inr []
     \<and> enum_includes industryEnum (b_industry tech_corp)"
    using createCompany_checks_before_insert [of example_lib example_clock empty_store tech_corp] a
    by blast
  then have 3: "fst (createCompany example_lib example_clock tech_store tech_corp)
       = Inl (Thrown_ApiError (ApiError example_clock 400 (Some ''Already existing company'') None))
     \<and> snd (createCompany example_lib example_clock tech_store tech_corp) = tech_store"
    using createCompany_checks_before_insert [of example_lib example_clock tech_store tech_corp]
      st m d by blast
  show ?thesis using a 1 2 3 st m sp t by blast
qed

text \<open>
  C4. Of an update body only the keys of the allow-list are retained, each with the
  value the body gives it. When nothing is retained, and so whenever every key of the body
  is outside the allow-list, the operation answers 400 ``No fields provided to update''
  and leaves the store as it was.
\<close>

theorem updateCompany_allow_list:
  "((k, v) \<in> set (collect_updates u allowedFields)
      \<longleftrightarrow> k \<in> set [''logo'', ''description'', ''location'', ''phone'', ''isActive'']
          \<and> v = get_key u k \<and> v \<noteq> JUndefined)
   \<and> (collect_updates u allowedFields = [] \<longrightarrow>
         updateCompany lb clk s i u = ((400, Json_message ''No fields provided to update''), s))
   \<and> (fst ` set u \<inter> set [''logo'', ''description'', ''location'', ''phone'', ''isActive''] = {} \<longrightarrow>
         updateCompany lb clk s i u = ((400, Json_message ''No fields provided to update''), s))"
proof -
  have a: "allowedFields = [''logo'', ''description'', ''location'', ''phone'', ''isActive'']"
    by (simp add: allowedFields_def)
  have none: "updateCompany lb clk s i u = ((400, Json_message ''No fields provided to update''), s)"
    if "collect_updates u allowedFields = []"
    using that by (simp add: updateCompany_def)
  have "collect_updates u allowedFields = []"
    if "fst ` set u \<inter> set [''logo'', ''description'', ''location'', ''phone'', ''isActive''] = {}"
  proof -
    have "\<forall>k \<in> set allowedFields. k \<notin> fst ` set u" using that a by auto
    then show ?thesis by (simp add: collect_updates_Nil get_key_outside)
  qed
  then show ?thesis using none collect_updates_mem [of k v u allowedFields] a by simp
qed

theorem updateCompany_allow_list_witness:
  "fst ` set [(''name'', JStr ''Other''), (''email'', JStr ''x@y.com'')]
     \<inter> set [''logo'', ''description'', ''location'', ''phone'', ''isActive''] = {}
   \<and> updateCompany example_lib example_clock tech_store ''0''
        [(''name'', JStr ''Other''), (''email'', JStr ''x@y.com'')]
      = ((400, Json_message ''No fields provided to update''), tech_store)"
proof -
  have "fst ` set [(''name'', JStr ''Other''), (''email'', JStr ''x@y.com'')]
     \<inter> set [''logo'', ''description'', ''location'', ''phone'', ''isActive''] = {}"
    by simp
  then show ?thesis
    using updateCompany_allow_list [of _ _ "[(''name'', JStr ''Other''), (''email'', JStr ''x@y.com'')]"
        example_lib example_clock tech_store "''0''"]
    by blast
qed

text \<open>
  C5. The search answers with the stored records that meet the conjunction of the
  constraints of its parameters, unless a given value cannot be used, when it answers 500.
  A given industry constrains the record's industry to be equal to it, a given number of
  employees constrains the record's to be at least it, and an absent parameter constrains
  nothing; the constraints of the other parameters do not depend on these two, so leaving
  one of them out removes its constraint and no other.
\<close>

theorem searchCompanies_conjunction:
  "searchCompanies lb s q
     = (if query_fails lb q then (500, Json_error)
        else (200, Json_companies
                (filter (\<lambda>c. spec_industry_constraint (q_industry q) c
                             \<and> spec_employees_constraint lb (q_employees q) c
                             \<and> spec_other_constraints lb q c) (docs s))))
   \<and> spec_other_constraints lb (q\<lparr> q_industry := x, q_employees := y \<rparr>) c
       = spec_other_constraints lb q c
   \<and> spec_industry_constraint None c
   \<and> spec_employees_constraint lb None c
   \<and> (i \<noteq> [] \<longrightarrow> spec_industry_constraint (Some i) c = (industry c = i))
   \<and> (e \<noteq> [] \<and> Number lb e = Some k \<longrightarrow>
        spec_employees_constraint lb (Some e) c = (\<exists>n. employees c = Some n \<and> k \<le> n))"
proof -
  have 1: "searchCompanies lb s q
     = (if query_fails lb q then (500, Json_error)
        else (200, Json_companies
                (filter (\<lambda>c. spec_industry_constraint (q_industry q) c
                             \<and> spec_employees_constraint lb (q_employees q) c
                             \<and> spec_other_constraints lb q c) (docs s))))"
    by (simp add: searchCompanies_def Company_find_spec)
  have 2: "spec_other_constraints lb (q\<lparr> q_industry := x, q_employees := y \<rparr>) c
       = spec_other_constraints lb q c"
    by (simp add: spec_other_constraints_def)
  have 3: "spec_industry_constraint None c" "spec_employees_constraint lb None c"
    by (simp_all add: spec_industry_constraint_def spec_employees_constraint_def given_def)
  have 4: "i \<noteq> [] \<longrightarrow> spec_industry_constraint (Some i) c = (industry c = i)"
    by (simp add: spec_industry_constraint_def given_def)
  have 5: "e \<noteq> [] \<and> Number lb e = Some k \<longrightarrow>
        spec_employees_constraint lb (Some e) c = (\<exists>n. employees c = Some n \<and> k \<le> n)"
    by (auto simp: spec_employees_constraint_def given_def split: option.splits)
  show ?thesis using 1 2 3 4 5 by blast
qed

theorem searchCompanies_conjunction_witness:
  "\<not> query_fails example_lib technology_50
   \<and> searchCompanies example_lib acme_store technology_50 = (200, Json_companies [acme_doc])
   \<and> searchCompanies example_lib acme_store (technology_50\<lparr> q_employees := None \<rparr>)
       = (200, Json_companies [tech_corp_doc, acme_doc])
   \<and> searchCompanies example_lib acme_store (technology_50\<lparr> q_industry := None \<rparr>)
       = (200, Json_companies [acme_doc])
   \<and> Number example_lib ''50'' = Some 50
   \<and> spec_employees_constraint example_lib (Some ''50'') acme_doc
   \<and> \<not> spec_employees_constraint example_lib (Some ''50'') acme_labs_doc"
proof -
  have nf: "\<not> query_fails example_lib technology_50"
    "\<not> query_fails example_lib (technology_50\<lparr> q_employees := None \<rparr>)"
    "\<not> query_fails example_lib (technology_50\<lparr> q_industry := None \<rparr>)"
    by (simp_all add: query_fails_def technology_50_def given_def example_lib_def)
  have f1: "filter (\<lambda>c. spec_industry_constraint (q_industry technology_50) c
                     \<and> spec_employees_constraint example_lib (q_employees technology_50) c
                     \<and> spec_other_constraints example_lib technology_50 c) (docs acme_store)
              = [acme_doc]"
    by code_simp
  have f2: "filter (\<lambda>c. spec_industry_constraint (q_industry (technology_50\<lparr> q_employees := None \<rparr>)) c
                     \<and> spec_employees_constraint example_lib
                          (q_employees (technology_50\<lparr> q_employees := None \<rparr>)) c
                     \<and> spec_other_constraints example_lib (technology_50\<lparr> q_employees := None \<rparr>) c)
              (docs acme_store)
              = [tech_corp_doc, acme_doc]"
    by code_simp
  have f3: "filter (\<lambda>c. spec_industry_constraint (q_industry (technology_50\<lparr> q_industry := None \<rparr>)) c
                     \<and> spec_employees_constraint example_lib
                          (q_employees (technology_50\<lparr> q_industry := None \<rparr>)) c
                     \<and> spec_other_constraints example_lib (technology_50\<lparr> q_industry := None \<rparr>) c)
              (docs acme_store)
              = [acme_doc]"
    by code_simp
  have n: "Number example_lib ''50'' = Some 50" by (simp add: example_lib_def)
  have e: "employees acme_doc = Some 60" "employees acme_labs_doc = Some 20"
    by (simp_all add: acme_doc_def acme_labs_doc_def)
  show ?thesis
    using searchCompanies_conjunction [of example_lib acme_store technology_50 _ _ acme_doc _ "''50''" 50]
      searchCompanies_conjunction [of example_lib acme_store "technology_50\<lparr> q_employees := None \<rparr>"
         _ _ acme_labs_doc _ "''50''" 50]
      searchCompanies_conjunction [of example_lib acme_store "technology_50\<lparr> q_industry := None \<rparr>"]
      nf f1 f2 f3 n e
    by simp
qed

text \<open>
  C6, as amended. The query is a regular expression. Whenever it compiles, the operation
  answers 200 with a list without repetition that holds exactly the names, industries and
  single locations that the expression matches. For a query without a character of
  regular expression syntax that is the case-insensitive substring test, and the answer is
  the collection the specification describes.
\<close>
theorem searchSuggestion_values:
  "(regex_i lb q = Some m \<longrightarrow>
      (\<exists>result. searchSuggestion lb s (Some q) = (200, Json_strings result) \<and> distinct result
         \<and> set result = {v. \<exists>c \<in> set (docs s). v \<in> set (name c # industry c # location c) \<and> m v}))
   \<and> (\<not> (\<exists>c \<in> set q. is_meta c) \<longrightarrow>
      (\<exists>result. searchSuggestion lb s (Some q) = (200, Json_strings result) \<and> distinct result
         \<and> set result = spec_suggestions q s))"
proof -
  have literal: "\<exists>result. searchSuggestion lb s (Some q) = (200, Json_strings result) \<and> distinct result
         \<and> set result = spec_suggestions q s"
    if lit: "\<not> (\<exists>c \<in> set q. is_meta c)"
  proof -
    have m: "match_anywhere q = ci_substring q"
      using match_anywhere_literal [OF lit] by (simp add: fun_eq_iff)
    show ?thesis
      using searchSuggestion_regex [OF regex_i_literal [OF lit, of lb], of s]
      unfolding spec_suggestions_alt m .
  qed
  have pattern: "regex_i lb q = Some m \<longrightarrow>
      (\<exists>result. searchSuggestion lb s (Some q) = (200, Json_strings result) \<and> distinct result
         \<and> set result = {v. \<exists>c \<in> set (docs s). v \<in> set (name c # industry c # location c) \<and> m v})"
    using searchSuggestion_regex [of lb q m s] by (rule impI)
  show ?thesis
  proof (rule conjI)
    show "regex_i lb q = Some m \<longrightarrow>
      (\<exists>result. searchSuggestion lb s (Some q) = (200, Json_strings result) \<and> distinct result
         \<and> set result = {v. \<exists>c \<in> set (docs s). v \<in> set (name c # industry c # location c) \<and> m v})"
      by (rule pattern)
    show "\<not> (\<exists>c \<in> set q. is_meta c) \<longrightarrow>
      (\<exists>result. searchSuggestion lb s (Some q) = (200, Json_strings result) \<and> distinct result
         \<and> set result = spec_suggestions q s)"
      using literal by (rule impI)
  qed
qed


theorem searchSuggestion_values_witness:
  "\<not> (\<exists>c \<in> set ''Acme''. is_meta c)
   \<and> searchSuggestion example_lib acme_store (Some ''Acme'') = (200, Json_strings [''Acme Corp'', ''Acme Labs''])
   \<and> spec_suggestions ''Acme'' acme_store = {''Acme Corp'', ''Acme Labs''}"
proof -
  have lit: "\<not> (\<exists>c \<in> set ''Acme''. is_meta c)" by (simp add: is_meta_def)
  have r: "searchSuggestion example_lib acme_store (Some ''Acme'')
             = (200, Json_strings [''Acme Corp'', ''Acme Labs''])"
    by code_simp
  have "\<exists>result. searchSuggestion example_lib acme_store (Some ''Acme'') = (200, Json_strings result)
          \<and> distinct result \<and> set result = spec_suggestions ''Acme'' acme_store"
    using searchSuggestion_values [of example_lib "''Acme''" "\<lambda>v. True" acme_store] lit by blast
  then have "spec_suggestions ''Acme'' acme_store = {''Acme Corp'', ''Acme Labs''}"
    unfolding r by auto
  then show ?thesis using lit r by blast
qed

text \<open>
  The claim as it is written does not hold: the query \<open>.\<close> is the pattern that matches
  any character, so every value is suggested, although none contains a full stop.
\<close>

theorem searchSuggestion_dot:
  "searchSuggestion example_lib acme_store (Some ''.'')
     = (200, Json_strings [''Tech Corp'', ''Technology'', ''NY'', ''Acme Corp'', ''Berlin'',
                           ''Paris'', ''Acme Labs'', ''Healthcare''])
   \<and> \<not> ci_substring ''.'' ''Tech Corp''
   \<and> ''Tech Corp'' \<notin> spec_suggestions ''.'' acme_store"
proof -
  have 1: "searchSuggestion example_lib acme_store (Some ''.'')
     = (200, Json_strings [''Tech Corp'', ''Technology'', ''NY'', ''Acme Corp'', ''Berlin'',
                           ''Paris'', ''Acme Labs'', ''Healthcare''])"
    by code_simp
  have 2: "\<not> ci_substring ''.'' ''Tech Corp''" by code_simp
  have 3: "''Tech Corp'' \<notin> spec_suggestions ''.'' acme_store"
    using 2 by (simp add: spec_suggestions_alt)
  show ?thesis using 1 2 3 by blast
qed




text \<open>
  C8. Building a response envelope from a status code, a message and an optional payload
  reads nothing but its arguments and the clock: \<open>success\<close> is true exactly when the
  status code is below 400, the status code, message, payload and path are the ones given,
  and the timestamp is the clock's instant at construction.
\<close>

theorem ApiResponse_fields:
  "success (ApiResponse clk sc (Some m) d p) = (sc < 400)
   \<and> statusCode (ApiResponse clk sc (Some m) d p) = sc
   \<and> message (ApiResponse clk sc (Some m) d p) = m
   \<and> data (ApiResponse clk sc (Some m) d p) = d
   \<and> path (ApiResponse clk sc (Some m) d p) = p
   \<and> timestamp (ApiResponse clk sc (Some m) d p) = toISOString clk"
  by (simp add: ApiResponse_def)

text \<open>
  C9. For a stored record, get-by-id answers 200 with the whole record and a
  \<open>companyAge\<close> that is 0 when the record has no founding year and the current year
  minus the founding year otherwise. (The method tests the year with \<^verbatim>\<open>!\<close>, so the
  year 0, which the schema's minimum of 1800 rules out, would count as absent.)
\<close>

theorem getCompanyById_companyAge:
  "castObjectId lb i = Some k \<and> find (\<lambda>c. cid c = k) (docs s) = Some c \<longrightarrow>
     (\<exists>d. getCompanyById lb clk s i = (200, Json_company_details d)
          \<and> document d = c
          \<and> (foundedYear c = None \<longrightarrow> companyAge d = Some 0)
          \<and> (\<forall>y. foundedYear c = Some y \<and> y \<noteq> 0 \<longrightarrow> companyAge d = Some (getFullYear clk - y)))"
  by (auto simp: getCompanyById_def findById_def toObject_def getCompanyAge_def)

theorem getCompanyById_companyAge_witness:
  "castObjectId example_lib ''0'' = Some 0
   \<and> find (\<lambda>c. cid c = 0) (docs acme_store) = Some tech_corp_doc
   \<and> foundedYear tech_corp_doc = None
   \<and> castObjectId example_lib ''1'' = Some 1
   \<and> find (\<lambda>c. cid c = 1) (docs acme_store) = Some acme_doc
   \<and> foundedYear acme_doc = Some 2010
   \<and> (\<exists>d. getCompanyById example_lib example_clock acme_store ''0'' = (200, Json_company_details d)
          \<and> document d = tech_corp_doc \<and> companyAge d = Some 0)
   \<and> (\<exists>d. getCompanyById example_lib example_clock acme_store ''1'' = (200, Json_company_details d)
          \<and> document d = acme_doc \<and> companyAge d = Some 15)"
proof -
  have a: "castObjectId example_lib ''0'' = Some 0" "castObjectId example_lib ''1'' = Some 1"
    by (simp_all add: example_lib_def)
  have b: "find (\<lambda>c. cid c = 0) (docs acme_store) = Some tech_corp_doc"
    "find (\<lambda>c. cid c = 1) (docs acme_store) = Some acme_doc"
    by (simp_all add: acme_store_def tech_corp_doc_def acme_doc_def)
  have c: "foundedYear tech_corp_doc = None" "foundedYear acme_doc = Some 2010"
    "getFullYear example_clock - 2010 = 15"
    by (simp_all add: tech_corp_doc_def acme_doc_def example_clock_def)
  show ?thesis
    using getCompanyById_companyAge [of example_lib "''0''" 0 acme_store tech_corp_doc example_clock]
      getCompanyById_companyAge [of example_lib "''1''" 1 acme_store acme_doc example_clock]
      a b c
    by auto
qed

text \<open>
  C10. A key of the allow-list counts as provided whenever its value is not
  \<open>undefined\<close>: the pair is in the update set, whatever the value, and the operation does
  not answer 400.
\<close>

theorem updateCompany_defined_value_provided:
  "k \<in> set allowedFields \<and> get_key u k \<noteq> JUndefined \<longrightarrow>
     (k, get_key u k) \<in> set (collect_updates u allowedFields)
     \<and> fst (fst (updateCompany lb clk s i u)) \<noteq> 400"
proof
  assume h: "k \<in> set allowedFields \<and> get_key u k \<noteq> JUndefined"
  then have m: "(k, get_key u k) \<in> set (collect_updates u allowedFields)"
    by (simp add: collect_updates_mem)
  then have "collect_updates u allowedFields \<noteq> []" by auto
  then show "(k, get_key u k) \<in> set (collect_updates u allowedFields)
     \<and> fst (fst (updateCompany lb clk s i u)) \<noteq> 400"
    using m updateCompany_not_400 by blast
qed

theorem updateCompany_defined_value_provided_witness:
  "(''isActive'', JBool False) \<in> set (collect_updates [(''isActive'', JBool False)] allowedFields)
   \<and> fst (fst (updateCompany example_lib example_clock tech_store ''0'' [(''isActive'', JBool False)])) \<noteq> 400
   \<and> (''logo'', JNull) \<in> set (collect_updates [(''logo'', JNull)] allowedFields)
   \<and> (''phone'', JNum 0) \<in> set (collect_updates [(''phone'', JNum 0)] allowedFields)
   \<and> (''description'', JStr []) \<in> set (collect_updates [(''description'', JStr [])] allowedFields)"
  using
    updateCompany_defined_value_provided [of "''isActive''" "[(''isActive'', JBool False)]"
      example_lib example_clock tech_store "''0''"]
    updateCompany_defined_value_provided [of "''logo''" "[(''logo'', JNull)]"
      example_lib example_clock tech_store "''0''"]
    updateCompany_defined_value_provided [of "''phone''" "[(''phone'', JNum 0)]"
      example_lib example_clock tech_store "''0''"]
    updateCompany_defined_value_provided [of "''description''" "[(''description'', JStr [])]"
      example_lib example_clock tech_store "''0''"]
  by (simp add: allowedFields_def get_key_def)

end
